theory Spec2Isabelle
  imports Complex_Main "HOL-Library.Char_ord" "HOL-Library.List_Lexorder" "HOL-Library.Multiset"
begin

section \<open>Data model of the recommendation service (main.py)\<close>

text \<open>
  The caches hold plain dictionaries. A rating is \<open>{"userId", "movieId", "score"}\<close>, a movie
  is \<open>{"id", "title", "description", "category", "releaseDate"}\<close>. Identifiers are Python
  strings, compared by code point (the lexicographic order on \<open>char list\<close>). Scores are
  Python floats; they are modelled as real numbers, so rounding, overflow and NaN inputs are
  outside the model.
\<close>

record Rating =
  userId :: string
  movieId :: string
  score :: real

record Movie =
  movie_id :: string
  title :: string
  description :: string
  category :: string
  releaseDate :: string

text \<open>A recommendation \<open>{"movieId": m, "score": s}\<close> is the pair \<open>(m, s)\<close>.\<close>

type_synonym recommendation = "string \<times> real"

text \<open>The exceptions the recommendation path can raise.\<close>

datatype error = AttributeError | TypeError | IndexError | ValueError

text \<open>
  The pivoted \<open>DataFrame\<close>: row labels (\<open>index\<close>), column labels (\<open>columns\<close>) and the
  cells (\<open>values\<close>), one row per user.
\<close>

record user_item_matrix =
  mat_index :: "string list"
  mat_columns :: "string list"
  mat_values :: "real list list"

text \<open>
  The fields of \<open>RecommendationEngine\<close> that the recommendation path reads and writes. Both
  start as \<open>None\<close> and, once built, are never rebuilt.
\<close>

record RecommendationEngine =
  engine_user_item_matrix :: "user_item_matrix option"
  engine_content_similarity_matrix :: "real list list option"

definition new_engine :: RecommendationEngine where
  "new_engine = \<lparr>engine_user_item_matrix = None, engine_content_similarity_matrix = None\<rparr>"

definition MIN_RATINGS_FOR_CF :: nat where
  "MIN_RATINGS_FOR_CF = 5"

section \<open>Python and NumPy primitives\<close>

text \<open>\<open>xs[:k]\<close>: a negative \<open>k\<close> counts from the end.\<close>

definition py_prefix :: "int \<Rightarrow> 'a list \<Rightarrow> 'a list" where
  "py_prefix k xs = (if 0 \<le> k then take (nat k) xs else take (length xs - nat (- k)) xs)"

text \<open>\<open>np.mean\<close> of a list of floats. The callers only pass lists that are not empty.\<close>

definition np_mean :: "real list \<Rightarrow> real" where
  "np_mean xs = sum_list xs / real (length xs)"

text \<open>
  \<open>sorted(d.items(), key=lambda x: x[1], reverse=True)\<close> and
  \<open>l.sort(key=lambda x: x['score'], reverse=True)\<close>: Python's sort is stable, also with
  \<open>reverse=True\<close>, so entries of equal score keep their order.
\<close>

definition sort_by_score_desc :: "recommendation list \<Rightarrow> recommendation list" where
  "sort_by_score_desc xs = sort_key (\<lambda>x. - snd x) xs"

text \<open>
  A dictionary of lists in insertion order:
  \<open>if k not in d: d[k] = []\<close> followed by \<open>d[k].append(v)\<close>.
\<close>

fun dict_append :: "'k \<Rightarrow> 'v \<Rightarrow> ('k \<times> 'v list) list \<Rightarrow> ('k \<times> 'v list) list" where
  "dict_append k v [] = [(k, [v])]"
| "dict_append k v ((k', vs) # d) =
     (if k = k' then (k', vs @ [v]) # d else (k', vs) # dict_append k v d)"

text \<open>\<open>d[k] = v\<close>: an existing key keeps its position.\<close>

fun dict_set :: "'k \<Rightarrow> 'v \<Rightarrow> ('k \<times> 'v) list \<Rightarrow> ('k \<times> 'v) list" where
  "dict_set k v [] = [(k, v)]"
| "dict_set k v ((k', w) # d) = (if k = k' then (k', v) # d else (k', w) # dict_set k v d)"

text \<open>\<open>if k not in d: d[k] = v  else: d[k] += v\<close>.\<close>

fun dict_add :: "'k \<Rightarrow> real \<Rightarrow> ('k \<times> real) list \<Rightarrow> ('k \<times> real) list" where
  "dict_add k v [] = [(k, v)]"
| "dict_add k v ((k', w) # d) = (if k = k' then (k', w + v) # d else (k', w) # dict_add k v d)"

text \<open>A list of recommendations whose scores never increase from one entry to the next.\<close>

definition non_increasing :: "recommendation list \<Rightarrow> bool" where
  "non_increasing rs = sorted_wrt (\<lambda>a b. b \<le> a) (map snd rs)"

section \<open>Popularity fallback\<close>

text \<open>The dictionary \<open>movie_popularity\<close>: the scores of every rated movie, in rating order.\<close>

definition movie_popularity :: "Rating list \<Rightarrow> (string \<times> real list) list" where
  "movie_popularity ratings = fold (\<lambda>r d. dict_append (movieId r) (score r) d) ratings []"

text \<open>The list \<open>popular_movies\<close> before and after \<open>sort\<close>.\<close>

definition popular_movies :: "Rating list \<Rightarrow> recommendation list" where
  "popular_movies ratings =
     sort_by_score_desc
       (map (\<lambda>(m, rs). (m, np_mean rs * ln (real (length rs) + 1))) (movie_popularity ratings))"

definition unrated_movies :: "Movie list \<Rightarrow> recommendation list \<Rightarrow> recommendation list" where
  "unrated_movies movies popular =
     map (\<lambda>m. (movie_id m, 2.5)) (filter (\<lambda>m. movie_id m \<notin> set (map fst popular)) movies)"

definition get_popular_movies_fallback ::
  "Rating list \<Rightarrow> Movie list \<Rightarrow> int \<Rightarrow> recommendation list" where
  "get_popular_movies_fallback ratings movies limit =
     (if movies = [] then []
      else let popular = popular_movies ratings;
               popular' = (if int (length popular) < limit
                           then popular @ unrated_movies movies popular else popular)
           in py_prefix limit popular')"

section \<open>Building the matrices\<close>

text \<open>
  \<open>df.pivot_table(index='user_id', columns='movie_id', values='rating').fillna(0)\<close>:
  the labels are the distinct identifiers in ascending order, a cell is the mean of the
  scores of its (user, movie) pair (\<open>aggfunc='mean'\<close> is the default) and 0 where the pair
  has no rating.
\<close>

definition pivot_table :: "Rating list \<Rightarrow> user_item_matrix" where
  "pivot_table ratings =
     (let users = sort (remdups (map userId ratings));
          items = sort (remdups (map movieId ratings))
      in \<lparr>mat_index = users, mat_columns = items,
          mat_values =
            map (\<lambda>u. map (\<lambda>m.
                   let xs = map score (filter (\<lambda>r. userId r = u \<and> movieId r = m) ratings)
                   in if xs = [] then 0 else np_mean xs) items) users\<rparr>)"

text \<open>\<open>build_user_item_matrix\<close> leaves the field as it is when there are no ratings.\<close>

definition build_user_item_matrix ::
  "Rating list \<Rightarrow> RecommendationEngine \<Rightarrow> RecommendationEngine" where
  "build_user_item_matrix ratings eng =
     (if ratings = [] then eng
      else eng\<lparr>engine_user_item_matrix := Some (pivot_table ratings)\<rparr>)"

text \<open>
  \<open>sklearn.metrics.pairwise.cosine_similarity(X, Y)\<close> scales every row to unit length and
  multiplies; a row of norm zero is divided by 1 instead and stays zero.
\<close>

definition row_norm :: "real list \<Rightarrow> real" where
  "row_norm v = sqrt (sum_list (map (\<lambda>x. x * x) v))"

definition norm_divisor :: "real list \<Rightarrow> real" where
  "norm_divisor v = (if row_norm v = 0 then 1 else row_norm v)"

definition normalize_row :: "real list \<Rightarrow> real list" where
  "normalize_row v = map (\<lambda>x. x / norm_divisor v) v"

definition dot :: "real list \<Rightarrow> real list \<Rightarrow> real" where
  "dot x y = sum_list (map2 (*) x y)"

definition cosine_similarity :: "real list list \<Rightarrow> real list list \<Rightarrow> real list list" where
  "cosine_similarity X Y = map (\<lambda>x. map (\<lambda>y. dot (normalize_row x) (normalize_row y)) Y) X"

definition movie_text :: "Movie \<Rightarrow> string" where
  "movie_text m = title m @ '' '' @ description m @ '' '' @ category m"

text \<open>
  \<open>build_content_features\<close>. The vectorizer
  \<open>TfidfVectorizer(max_features=1000, stop_words='english', ngram_range=(1, 2)).fit_transform\<close>
  is the parameter \<open>tfidf\<close>: it maps the texts to one feature row per text, or raises (it does
  so when no text has a word outside the stop list).
\<close>

definition build_content_features ::
  "(string list \<Rightarrow> error + real list list) \<Rightarrow> Movie list \<Rightarrow> RecommendationEngine
     \<Rightarrow> error + RecommendationEngine" where
  "build_content_features tfidf movies eng =
     (if movies = [] then Inr eng
      else case tfidf (map movie_text movies) of
             Inl e \<Rightarrow> Inl e
           | Inr tfidf_matrix \<Rightarrow>
               Inr (eng\<lparr>engine_content_similarity_matrix :=
                          Some (cosine_similarity tfidf_matrix tfidf_matrix)\<rparr>))"

section \<open>Collaborative filtering\<close>

text \<open>\<open>l.index(x)\<close> where \<open>x\<close> is in \<open>l\<close>, and the row of a label (\<open>.loc\<close>).\<close>

fun list_index :: "'a list \<Rightarrow> 'a \<Rightarrow> nat" where
  "list_index [] x = 0"
| "list_index (y # ys) x = (if x = y then 0 else Suc (list_index ys x))"

definition loc :: "user_item_matrix \<Rightarrow> string \<Rightarrow> real list" where
  "loc M label = mat_values M ! list_index (mat_index M) label"

text \<open>
  \<open>np.argsort\<close>: the positions in ascending order of their values. Equal values are taken
  in order of position, as NumPy's insertion sort for short arrays leaves them.
\<close>

definition argsort :: "real list \<Rightarrow> nat list" where
  "argsort xs = map snd (sort_key fst (zip xs [0..<length xs]))"

text \<open>\<open>cosine_similarity(user_ratings, self.user_item_matrix.values)[0]\<close>.\<close>

definition user_similarity :: "user_item_matrix \<Rightarrow> string \<Rightarrow> real list" where
  "user_similarity M user_id = cosine_similarity [loc M user_id] (mat_values M) ! 0"

text \<open>\<open>np.argsort(user_similarity)[::-1][1:11]\<close>.\<close>

definition similar_users_idx :: "user_item_matrix \<Rightarrow> string \<Rightarrow> nat list" where
  "similar_users_idx M user_id = take 10 (drop 1 (rev (argsort (user_similarity M user_id))))"

definition user_movies :: "user_item_matrix \<Rightarrow> string \<Rightarrow> string set" where
  "user_movies M user_id =
     set (map fst (filter (\<lambda>(c, r). r > 0) (zip (mat_columns M) (loc M user_id))))"

text \<open>The dictionary \<open>recommendations\<close> after the two nested loops.\<close>

definition cf_contributions :: "user_item_matrix \<Rightarrow> string \<Rightarrow> (string \<times> real list) list" where
  "cf_contributions M user_id =
     fold (\<lambda>idx d.
             fold (\<lambda>(movie, rating) d'.
                     if rating > 0 \<and> movie \<notin> user_movies M user_id
                     then dict_append movie (rating * user_similarity M user_id ! idx) d'
                     else d')
                  (zip (mat_columns M) (loc M (mat_index M ! idx))) d)
          (similar_users_idx M user_id) []"

definition movie_scores :: "(string \<times> real list) list \<Rightarrow> recommendation list" where
  "movie_scores recommendations = map (\<lambda>(m, scores). (m, np_mean scores)) recommendations"

text \<open>
  \<open>if self.user_item_matrix is None: self.build_user_item_matrix()\<close>, the first statement
  of \<open>collaborative_filtering_recommendations\<close>.
\<close>

definition ensure_user_item_matrix ::
  "Rating list \<Rightarrow> RecommendationEngine \<Rightarrow> RecommendationEngine" where
  "ensure_user_item_matrix ratings eng =
     (if engine_user_item_matrix eng = None then build_user_item_matrix ratings eng else eng)"

text \<open>The rest of the function, on the matrix \<open>M\<close> that the engine holds.\<close>

definition collaborative_ranking :: "user_item_matrix \<Rightarrow> string \<Rightarrow> int \<Rightarrow> recommendation list" where
  "collaborative_ranking M user_id limit =
     (if user_id \<notin> set (mat_index M) then []
      else py_prefix limit (sort_by_score_desc (movie_scores (cf_contributions M user_id))))"

text \<open>
  \<open>collaborative_filtering_recommendations\<close>: the result or the exception raised, and the
  engine afterwards. If the matrix is still \<open>None\<close> after the attempt to build it,
  \<open>self.user_item_matrix.index\<close> raises \<open>AttributeError\<close>.
\<close>

definition collaborative_filtering_recommendations ::
  "Rating list \<Rightarrow> RecommendationEngine \<Rightarrow> string \<Rightarrow> int
     \<Rightarrow> (error + recommendation list) \<times> RecommendationEngine" where
  "collaborative_filtering_recommendations ratings eng user_id limit =
     (let eng1 = ensure_user_item_matrix ratings eng
      in case engine_user_item_matrix eng1 of
           None \<Rightarrow> (Inl AttributeError, eng1)
         | Some M \<Rightarrow> (Inr (collaborative_ranking M user_id limit), eng1))"

section \<open>Content-based filtering\<close>

text \<open>
  The inner loop \<open>for i, score in enumerate(similar_scores)\<close>, from position \<open>i\<close> on;
  \<open>movie_ids[i]\<close> raises \<open>IndexError\<close> past the end of \<open>movie_ids\<close>.
\<close>

fun content_row ::
  "string list \<Rightarrow> string list \<Rightarrow> string \<Rightarrow> nat \<Rightarrow> real list
     \<Rightarrow> (string \<times> real list) list \<Rightarrow> error + (string \<times> real list) list" where
  "content_row movie_ids rated liked_movie i [] d = Inr d"
| "content_row movie_ids rated liked_movie i (s # similar_scores) d =
     (if i < length movie_ids
      then content_row movie_ids rated liked_movie (Suc i) similar_scores
             (if movie_ids ! i \<noteq> liked_movie \<and> movie_ids ! i \<notin> set rated
              then dict_append (movie_ids ! i) s d else d)
      else Inl IndexError)"

text \<open>
  The outer loop \<open>for liked_movie in liked_movies\<close>. Reading a row of the matrix raises
  \<open>TypeError\<close> when the matrix is \<open>None\<close> and \<open>IndexError\<close> when it has too few rows.
\<close>

fun content_contributions ::
  "real list list option \<Rightarrow> string list \<Rightarrow> string list \<Rightarrow> string list
     \<Rightarrow> (string \<times> real list) list \<Rightarrow> error + (string \<times> real list) list" where
  "content_contributions S movie_ids rated [] d = Inr d"
| "content_contributions S movie_ids rated (liked_movie # liked_movies) d =
     (if liked_movie \<in> set movie_ids
      then (case S of
              None \<Rightarrow> Inl TypeError
            | Some rows \<Rightarrow>
                if list_index movie_ids liked_movie < length rows
                then (case content_row movie_ids rated liked_movie 0
                             (rows ! list_index movie_ids liked_movie) d of
                        Inl e \<Rightarrow> Inl e
                      | Inr d' \<Rightarrow> content_contributions S movie_ids rated liked_movies d')
                else Inl IndexError)
      else content_contributions S movie_ids rated liked_movies d)"

text \<open>
  \<open>if self.content_similarity_matrix is None: self.build_content_features()\<close>, the first
  statement of \<open>content_based_recommendations\<close>; an exception of the vectorizer leaves the
  engine as it was.
\<close>

definition ensure_content_features ::
  "(string list \<Rightarrow> error + real list list) \<Rightarrow> Movie list \<Rightarrow> RecommendationEngine
     \<Rightarrow> error + RecommendationEngine" where
  "ensure_content_features tfidf movies eng =
     (if engine_content_similarity_matrix eng = None
      then build_content_features tfidf movies eng else Inr eng)"

text \<open>The rest of the function, on the similarity matrix \<open>S\<close> that the engine holds.\<close>

definition content_ranking ::
  "real list list option \<Rightarrow> Rating list \<Rightarrow> Movie list \<Rightarrow> string \<Rightarrow> int
     \<Rightarrow> error + recommendation list" where
  "content_ranking S ratings movies user_id limit =
     (let user_ratings = filter (\<lambda>r. userId r = user_id) ratings in
      if user_ratings = [] then Inr []
      else let liked_movies = map movieId (filter (\<lambda>r. score r \<ge> 4) user_ratings) in
      if liked_movies = [] then Inr []
      else (case content_contributions S (map movie_id movies) (map movieId user_ratings)
                   liked_movies [] of
              Inl e \<Rightarrow> Inl e
            | Inr recommendations \<Rightarrow>
                Inr (py_prefix limit (sort_by_score_desc (movie_scores recommendations)))))"

definition content_based_recommendations ::
  "(string list \<Rightarrow> error + real list list) \<Rightarrow> Rating list \<Rightarrow> Movie list
     \<Rightarrow> RecommendationEngine \<Rightarrow> string \<Rightarrow> int
     \<Rightarrow> (error + recommendation list) \<times> RecommendationEngine" where
  "content_based_recommendations tfidf ratings movies eng user_id limit =
     (case ensure_content_features tfidf movies eng of
        Inl e \<Rightarrow> (Inl e, eng)
      | Inr eng1 \<Rightarrow>
          (content_ranking (engine_content_similarity_matrix eng1) ratings movies user_id limit,
           eng1))"

section \<open>Hybrid recommendations\<close>

text \<open>The dictionary \<open>combined_dict\<close> after the two loops of the blended branch.\<close>

definition combined_dict ::
  "recommendation list \<Rightarrow> recommendation list \<Rightarrow> int \<Rightarrow> recommendation list" where
  "combined_dict cf_recs content_recs limit =
     fold (\<lambda>rec d. dict_add (fst rec) (snd rec * 0.3) d) content_recs
       (fold (\<lambda>rec d. dict_set (fst rec) (snd rec * 0.7) d) (py_prefix (limit div 2) cf_recs) [])"

definition user_rating_count :: "Rating list \<Rightarrow> string \<Rightarrow> nat" where
  "user_rating_count ratings user_id = length (filter (\<lambda>r. userId r = user_id) ratings)"

text \<open>
  The \<open>if\<close>/\<open>elif\<close> of \<open>hybrid_recommendations\<close> that fills \<open>recommendations\<close>: the
  blended branch, the content branch, or neither.
\<close>

definition hybrid_personalized ::
  "(string list \<Rightarrow> error + real list list) \<Rightarrow> Rating list \<Rightarrow> Movie list
     \<Rightarrow> RecommendationEngine \<Rightarrow> string \<Rightarrow> int
     \<Rightarrow> (error + recommendation list) \<times> RecommendationEngine" where
  "hybrid_personalized tfidf ratings movies eng user_id limit =
     (if user_rating_count ratings user_id \<ge> MIN_RATINGS_FOR_CF
      then (case collaborative_filtering_recommendations ratings eng user_id limit of
              (Inl e, eng1) \<Rightarrow> (Inl e, eng1)
            | (Inr cf_recs, eng1) \<Rightarrow>
                (case content_based_recommendations tfidf ratings movies eng1 user_id
                        (limit div 2) of
                   (Inl e, eng2) \<Rightarrow> (Inl e, eng2)
                 | (Inr content_recs, eng2) \<Rightarrow>
                     (Inr (py_prefix limit
                             (sort_by_score_desc (combined_dict cf_recs content_recs limit))),
                      eng2)))
      else if user_rating_count ratings user_id > 0
      then content_based_recommendations tfidf ratings movies eng user_id limit
      else (Inr [], eng))"

text \<open>\<open>hybrid_recommendations\<close>: the personalized part, then the fallback when it is empty.\<close>

definition hybrid_recommendations ::
  "(string list \<Rightarrow> error + real list list) \<Rightarrow> Rating list \<Rightarrow> Movie list
     \<Rightarrow> RecommendationEngine \<Rightarrow> string \<Rightarrow> int
     \<Rightarrow> (error + recommendation list) \<times> RecommendationEngine" where
  "hybrid_recommendations tfidf ratings movies eng user_id limit =
     (case hybrid_personalized tfidf ratings movies eng user_id limit of
        (Inl e, eng') \<Rightarrow> (Inl e, eng')
      | (Inr recommendations, eng') \<Rightarrow>
          (Inr (if recommendations = []
                then get_popular_movies_fallback ratings movies limit
                else recommendations),
           eng'))"

section \<open>The blend in the words of the specification\<close>

text \<open>
  The combined score of a movie: 0.7 times its collaborative score plus 0.3 times its content
  score, each part only if the movie is in that result.
\<close>

definition blend_score ::
  "recommendation list \<Rightarrow> recommendation list \<Rightarrow> string \<Rightarrow> real option" where
  "blend_score cf_recs content_recs m =
     (case (map_of cf_recs m, map_of content_recs m) of
        (None, None) \<Rightarrow> None
      | (Some a, None) \<Rightarrow> Some (a * 0.7)
      | (None, Some b) \<Rightarrow> Some (b * 0.3)
      | (Some a, Some b) \<Rightarrow> Some (a * 0.7 + b * 0.3))"

text \<open>
  The output the specification describes: every collaborative entry and every content entry
  enters the map, which is sorted and cut to \<open>limit\<close>.
\<close>

definition specified_blend ::
  "recommendation list \<Rightarrow> recommendation list \<Rightarrow> int \<Rightarrow> recommendation list" where
  "specified_blend cf_recs content_recs limit =
     py_prefix limit
       (sort_by_score_desc
          (fold (\<lambda>rec d. dict_add (fst rec) (snd rec * 0.3) d) content_recs
             (fold (\<lambda>rec d. dict_set (fst rec) (snd rec * 0.7) d) cf_recs [])))"

section \<open>Predicates used in the statements\<close>

text \<open>A property of the dictionaries of lists that every insertion preserves.\<close>

definition dict_invariant :: "((string \<times> real list) list \<Rightarrow> bool) \<Rightarrow> bool" where
  "dict_invariant P \<longleftrightarrow> (\<forall>k v d. P d \<longrightarrow> P (dict_append k v d))"

text \<open>A result of at most \<open>limit\<close> entries whose movie ids are pairwise distinct.\<close>

definition valid_result :: "int \<Rightarrow> recommendation list \<Rightarrow> bool" where
  "valid_result limit rs \<longleftrightarrow> int (length rs) \<le> limit \<and> distinct (map fst rs)"

text \<open>
  A similarity matrix that the loops of the content recommender can read for the movies of
  the snapshot: a row for every movie, and no row longer than the list of movies.
\<close>

definition content_matrix_fits :: "real list list \<Rightarrow> Movie list \<Rightarrow> bool" where
  "content_matrix_fits S movies \<longleftrightarrow>
     length movies \<le> length S \<and> list_all (\<lambda>row. length row \<le> length movies) S"

text \<open>
  The engine holds such a matrix, or holds none and can build one: there is no movie, or the
  vectorizer returns one feature row per movie.
\<close>

definition content_available ::
  "(string list \<Rightarrow> error + real list list) \<Rightarrow> Movie list \<Rightarrow> RecommendationEngine \<Rightarrow> bool" where
  "content_available tfidf movies eng =
     (case engine_content_similarity_matrix eng of
        Some S \<Rightarrow> content_matrix_fits S movies
      | None \<Rightarrow>
          movies = [] \<or>
          (case tfidf (map movie_text movies) of
             Inl e \<Rightarrow> False
           | Inr X \<Rightarrow> length X = length movies))"

section \<open>Sample snapshots\<close>

text \<open>A movie and a rating as the caches hold them; the text fields of the movie are empty.\<close>

definition mk_movie :: "string \<Rightarrow> Movie" where
  "mk_movie i =
     \<lparr>movie_id = i, title = [], description = [], category = [], releaseDate = []\<rparr>"

definition mk_rating :: "string \<Rightarrow> string \<Rightarrow> real \<Rightarrow> Rating" where
  "mk_rating u m s = \<lparr>userId = u, movieId = m, score = s\<rparr>"

text \<open>
  A snapshot with two users: \<open>u\<close> has rated five movies, \<open>v\<close> shares one of them and has
  rated two more. Three movies are in the catalogue, with feature rows given by
  \<open>sample_tfidf\<close>.
\<close>

definition sample_ratings :: "Rating list" where
  "sample_ratings =
     [mk_rating ''u'' ''a'' 5, mk_rating ''u'' ''b'' 5, mk_rating ''u'' ''c'' 3,
      mk_rating ''u'' ''d'' 2, mk_rating ''u'' ''e'' 1,
      mk_rating ''v'' ''a'' 4, mk_rating ''v'' ''f'' 4, mk_rating ''v'' ''g'' 2]"

definition sample_movies :: "Movie list" where
  "sample_movies = [mk_movie ''a'', mk_movie ''f'', mk_movie ''g'']"

definition sample_tfidf :: "string list \<Rightarrow> error + real list list" where
  "sample_tfidf texts = Inr [[3, 4], [4, 3], [1, 0]]"

text \<open>The pivot of \<open>sample_ratings\<close> and the content similarities of \<open>sample_movies\<close>.\<close>

definition sample_matrix :: user_item_matrix where
  "sample_matrix =
     \<lparr>mat_index = [''u'', ''v''],
      mat_columns = [''a'', ''b'', ''c'', ''d'', ''e'', ''f'', ''g''],
      mat_values = [[5, 5, 3, 2, 1, 0, 0], [4, 0, 0, 0, 0, 4, 2]]\<rparr>"

definition sample_similarity :: "real list list" where
  "sample_similarity = [[1, 24/25, 3/5], [24/25, 1, 4/5], [3/5, 4/5, 1]]"

definition sample_engine :: RecommendationEngine where
  "sample_engine =
     \<lparr>engine_user_item_matrix = Some sample_matrix,
      engine_content_similarity_matrix = Some sample_similarity\<rparr>"

text \<open>Two users with the same single rating: their rows in the matrix are equal.\<close>

definition twin_ratings :: "Rating list" where
  "twin_ratings = [mk_rating ''a'' ''m'' 5, mk_rating ''b'' ''m'' 5]"

section \<open>Slices, sorting and dictionaries\<close>

lemma py_prefix_nonneg: "0 \<le> k \<Longrightarrow> py_prefix k xs = take (nat k) xs"
  by (simp add: py_prefix_def)

lemma py_prefix_eq_Nil_iff: "1 \<le> k \<Longrightarrow> py_prefix k xs = [] \<longleftrightarrow> xs = []"
  by (simp add: py_prefix_def)

lemma py_prefix_is_take: "\<exists>j. py_prefix k xs = take j xs"
  by (auto simp: py_prefix_def)

lemma length_py_prefix: "0 \<le> k \<Longrightarrow> int (length (py_prefix k xs)) \<le> k"
  by (simp add: py_prefix_def)

lemma distinct_keys_py_prefix:
  "distinct (map fst xs) \<Longrightarrow> distinct (map fst (py_prefix k xs))"
proof -
  assume d: "distinct (map fst xs)"
  obtain j where "py_prefix k xs = take j xs" using py_prefix_is_take by blast
  then show ?thesis using d by (simp add: take_map [symmetric] distinct_take del: take_map)
qed

lemma non_increasing_sort: "non_increasing (sort_by_score_desc xs)"
proof -
  have "sorted (map (\<lambda>x. - snd x) (sort_key (\<lambda>x. - snd x) xs))" by (rule sorted_sort_key)
  then show ?thesis
    unfolding non_increasing_def sort_by_score_desc_def
    by (simp add: sorted_wrt_map)
qed

lemma non_increasing_take: "non_increasing xs \<Longrightarrow> non_increasing (take j xs)"
  unfolding non_increasing_def by (simp add: take_map [symmetric] sorted_wrt_take del: take_map)

lemma non_increasing_py_prefix: "non_increasing xs \<Longrightarrow> non_increasing (py_prefix k xs)"
  using py_prefix_is_take [of k xs] non_increasing_take by auto

lemma keys_sort_by_score_desc: "mset (map fst (sort_by_score_desc xs)) = mset (map fst xs)"
  by (simp add: sort_by_score_desc_def)

lemma distinct_keys_sort:
  "distinct (map fst (sort_by_score_desc xs)) \<longleftrightarrow> distinct (map fst xs)"
  using keys_sort_by_score_desc [of xs] by (metis mset_eq_imp_distinct_iff)

lemma set_sort_by_score_desc: "set (sort_by_score_desc xs) = set xs"
  by (simp add: sort_by_score_desc_def)

lemma length_sort_by_score_desc: "length (sort_by_score_desc xs) = length xs"
  by (simp add: sort_by_score_desc_def)

lemma keys_dict_append:
  "map fst (dict_append k v d) = (if k \<in> set (map fst d) then map fst d else map fst d @ [k])"
  by (induction d) force+

lemma distinct_dict_append:
  "distinct (map fst d) \<Longrightarrow> distinct (map fst (dict_append k v d))"
  by (simp add: keys_dict_append)

lemma keys_dict_set:
  "map fst (dict_set k v d) = (if k \<in> set (map fst d) then map fst d else map fst d @ [k])"
  by (induction d) force+

lemma distinct_dict_set: "distinct (map fst d) \<Longrightarrow> distinct (map fst (dict_set k v d))"
  by (simp add: keys_dict_set)

lemma keys_dict_add:
  "map fst (dict_add k v d) = (if k \<in> set (map fst d) then map fst d else map fst d @ [k])"
  by (induction d) force+

lemma distinct_dict_add: "distinct (map fst d) \<Longrightarrow> distinct (map fst (dict_add k v d))"
  by (simp add: keys_dict_add)

lemma nonempty_dict_append:
  "\<forall>(k, vs) \<in> set d. vs \<noteq> [] \<Longrightarrow> \<forall>(k, vs) \<in> set (dict_append k' v d). vs \<noteq> []"
  by (induction d) (auto split: if_splits)

lemma keys_movie_scores: "map fst (movie_scores d) = map fst d"
  by (simp add: movie_scores_def case_prod_unfold)

section \<open>Properties of the popularity fallback\<close>

lemma popular_movies_Nil: "popular_movies [] = []"
  by (simp add: popular_movies_def movie_popularity_def sort_by_score_desc_def)

lemma unrated_movies_Nil: "unrated_movies movies [] = map (\<lambda>m. (movie_id m, 2.5)) movies"
  by (simp add: unrated_movies_def)

text \<open>
  Claim C6. For every limit of at least 1 the popularity fallback returns the empty list
  exactly when the snapshot has no movie; with no rating at all it returns the first
  \<open>limit\<close> movies of the snapshot, each with the default score 2.5. The function has no
  raising branch: it is a total function into lists.
\<close>

theorem popularity_empty_iff_no_items:
  assumes "1 \<le> limit"
  shows "(get_popular_movies_fallback ratings movies limit = [] \<longleftrightarrow> movies = [])
       \<and> (ratings = [] \<longrightarrow>
            get_popular_movies_fallback ratings movies limit
              = take (nat limit) (map (\<lambda>m. (movie_id m, 2.5)) movies))"
proof
  show "get_popular_movies_fallback ratings movies limit = [] \<longleftrightarrow> movies = []"
  proof (cases "movies = []")
    case True
    then show ?thesis by (simp add: get_popular_movies_fallback_def)
  next
    case False
    show ?thesis
    proof (cases "popular_movies ratings = []")
      case True
      with False assms show ?thesis
        by (simp add: get_popular_movies_fallback_def Let_def py_prefix_eq_Nil_iff
            unrated_movies_Nil)
    next
      case nonempty: False
      with False assms show ?thesis
        by (simp add: get_popular_movies_fallback_def Let_def py_prefix_eq_Nil_iff)
    qed
  qed
next
  show "ratings = [] \<longrightarrow>
        get_popular_movies_fallback ratings movies limit
          = take (nat limit) (map (\<lambda>m. (movie_id m, 2.5)) movies)"
    using assms
    by (simp add: get_popular_movies_fallback_def Let_def popular_movies_Nil
        unrated_movies_Nil py_prefix_nonneg)
qed

theorem popularity_empty_iff_no_items_witness:
  "(1::int) \<le> 3 \<and> get_popular_movies_fallback [] [mk_movie ''m1'', mk_movie ''m2''] 3
     = [(''m1'', 2.5), (''m2'', 2.5)]
   \<and> get_popular_movies_fallback [] [] 3 = []"
  using popularity_empty_iff_no_items [of 3 "[]" "[mk_movie ''m1'', mk_movie ''m2'']"]
    popularity_empty_iff_no_items [of 3 "[]" "[]"]
  by (simp add: mk_movie_def)

section \<open>Invariants of the rankings\<close>

lemma dict_invariant_distinct: "dict_invariant (\<lambda>d. distinct (map fst d))"
  by (simp add: dict_invariant_def distinct_dict_append)

lemma dict_invariant_nonempty: "dict_invariant (\<lambda>d. \<forall>(k, vs) \<in> set d. vs \<noteq> [])"
  unfolding dict_invariant_def by (intro allI impI) (rule nonempty_dict_append)

lemma fold_preserves:
  assumes "\<And>x d. P d \<Longrightarrow> P (step x d)"
  shows "P d \<Longrightarrow> P (fold step xs d)"
  using assms by (induction xs arbitrary: d) simp_all

lemma movie_popularity_invariant:
  assumes "dict_invariant P" and "P []"
  shows "P (movie_popularity ratings)"
  unfolding movie_popularity_def
proof (rule fold_preserves)
  show "P []" by (rule assms(2))
  show "P (dict_append (movieId r) (score r) d)" if "P d" for r d
    using that assms(1) by (simp add: dict_invariant_def)
qed

lemma cf_contributions_invariant:
  assumes "dict_invariant P" and "P []"
  shows "P (cf_contributions M user_id)"
  unfolding cf_contributions_def
proof (rule fold_preserves)
  show "P []" by (rule assms(2))
next
  fix idx d
  assume d: "P d"
  show "P (fold (\<lambda>(movie, rating) d'.
                   if rating > 0 \<and> movie \<notin> user_movies M user_id
                   then dict_append movie (rating * user_similarity M user_id ! idx) d'
                   else d')
                (zip (mat_columns M) (loc M (mat_index M ! idx))) d)"
  proof (rule fold_preserves)
    show "P d" by (rule d)
    show "P ((\<lambda>(movie, rating) d'.
               if rating > 0 \<and> movie \<notin> user_movies M user_id
               then dict_append movie (rating * user_similarity M user_id ! idx) d'
               else d') x d')" if "P d'" for x d'
      using that assms(1) by (cases x) (simp add: dict_invariant_def)
  qed
qed

lemma content_row_invariant:
  assumes "dict_invariant P"
  shows "P d \<Longrightarrow> content_row movie_ids rated liked i row d = Inr d' \<Longrightarrow> P d'"
proof (induction row arbitrary: i d)
  case Nil
  then show ?case by simp
next
  case (Cons s row)
  from Cons.prems(2) have lt: "i < length movie_ids" by (simp split: if_splits)
  let ?d = "if movie_ids ! i \<noteq> liked \<and> movie_ids ! i \<notin> set rated
            then dict_append (movie_ids ! i) s d else d"
  have "P ?d" using Cons.prems(1) assms by (simp add: dict_invariant_def)
  moreover have "content_row movie_ids rated liked (Suc i) row ?d = Inr d'"
    using Cons.prems(2) lt by simp
  ultimately show ?case by (rule Cons.IH)
qed

lemma content_contributions_invariant:
  assumes "dict_invariant P"
  shows "P d \<Longrightarrow> content_contributions S movie_ids rated liked d = Inr d' \<Longrightarrow> P d'"
proof (induction liked arbitrary: d)
  case Nil
  then show ?case by simp
next
  case (Cons l liked)
  show ?case
  proof (cases "l \<in> set movie_ids")
    case False
    with Cons.prems(2) have "content_contributions S movie_ids rated liked d = Inr d'" by simp
    with Cons.prems(1) show ?thesis by (rule Cons.IH)
  next
    case True
    with Cons.prems(2) obtain rows d1 where
      S: "S = Some rows" and
      row: "content_row movie_ids rated l 0 (rows ! list_index movie_ids l) d = Inr d1" and
      rest: "content_contributions S movie_ids rated liked d1 = Inr d'"
      by (auto split: option.splits if_splits sum.splits)
    have "P d1" using assms Cons.prems(1) row by (rule content_row_invariant)
    then show ?thesis using rest by (rule Cons.IH)
  qed
qed

lemma valid_result_ranked:
  assumes "0 \<le> limit" and "distinct (map fst d)"
  shows "valid_result limit (py_prefix limit (sort_by_score_desc d))"
  using assms
  by (simp add: valid_result_def length_py_prefix distinct_keys_py_prefix distinct_keys_sort)

lemma collaborative_Inr:
  assumes "fst (collaborative_filtering_recommendations ratings eng user_id limit) = Inr rs"
  shows "\<exists>M. rs = collaborative_ranking M user_id limit"
  using assms
  by (auto simp: collaborative_filtering_recommendations_def Let_def split: option.splits)

lemma content_Inr:
  assumes "fst (content_based_recommendations tfidf ratings movies eng user_id limit) = Inr rs"
  shows "\<exists>S. content_ranking S ratings movies user_id limit = Inr rs"
  using assms
  by (auto simp: content_based_recommendations_def split: sum.splits)

lemma collaborative_ranking_ranked:
  "collaborative_ranking M user_id limit = []
   \<or> (\<exists>d. distinct (map fst d)
          \<and> collaborative_ranking M user_id limit = py_prefix limit (sort_by_score_desc d))"
proof (cases "user_id \<in> set (mat_index M)")
  case False
  then show ?thesis by (simp add: collaborative_ranking_def)
next
  case True
  have "distinct (map fst (cf_contributions M user_id))"
    by (rule cf_contributions_invariant [OF dict_invariant_distinct]) simp
  then have "distinct (map fst (movie_scores (cf_contributions M user_id)))"
    by (simp add: keys_movie_scores)
  with True show ?thesis unfolding collaborative_ranking_def by auto
qed

lemma content_ranking_ranked:
  assumes "content_ranking S ratings movies user_id limit = Inr rs"
  shows "rs = [] \<or> (\<exists>d. distinct (map fst d) \<and> rs = py_prefix limit (sort_by_score_desc d))"
proof -
  define user_ratings where "user_ratings = filter (\<lambda>r. userId r = user_id) ratings"
  define liked where "liked = map movieId (filter (\<lambda>r. score r \<ge> 4) user_ratings)"
  define contrib where "contrib = content_contributions S (map movie_id movies)
    (map movieId user_ratings) liked []"
  have unfold: "content_ranking S ratings movies user_id limit =
     (if user_ratings = [] then Inr []
      else if liked = [] then Inr []
      else (case contrib of Inl e \<Rightarrow> Inl e
            | Inr recommendations \<Rightarrow>
                Inr (py_prefix limit (sort_by_score_desc (movie_scores recommendations)))))"
    unfolding content_ranking_def Let_def user_ratings_def liked_def contrib_def ..
  show ?thesis
  proof (cases "user_ratings = [] \<or> liked = []")
    case True
    with unfold have "content_ranking S ratings movies user_id limit = Inr []"
      by (cases "user_ratings = []") simp_all
    with assms show ?thesis by simp
  next
    case False
    show ?thesis
    proof (cases contrib)
      case (Inl e)
      with False assms unfold show ?thesis by simp
    next
      case (Inr d)
      then have "distinct (map fst d)"
        using content_contributions_invariant [OF dict_invariant_distinct, of "[]"]
        unfolding contrib_def by simp
      then have "distinct (map fst (movie_scores d))" by (simp add: keys_movie_scores)
      moreover have "rs = py_prefix limit (sort_by_score_desc (movie_scores d))"
        using False assms unfold Inr by simp
      ultimately show ?thesis by blast
    qed
  qed
qed

section \<open>Shape of the results\<close>

lemma distinct_combined_dict: "distinct (map fst (combined_dict cf_recs content_recs limit))"
  unfolding combined_dict_def
proof (rule fold_preserves)
  show "distinct (map fst (dict_add (fst x) (snd x * 0.3) d))" if "distinct (map fst d)"
    for x :: recommendation and d
    using that by (rule distinct_dict_add)
  show "distinct (map fst (fold (\<lambda>rec d. dict_set (fst rec) (snd rec * 0.7) d)
                            (py_prefix (limit div 2) cf_recs) []))"
  proof (rule fold_preserves)
    show "distinct (map fst (dict_set (fst x) (snd x * 0.7) d))" if "distinct (map fst d)"
      for x :: recommendation and d
      using that by (rule distinct_dict_set)
  qed simp
qed

lemma hybrid_personalized_Inr:
  assumes "fst (hybrid_personalized tfidf ratings movies eng user_id limit) = Inr rs"
  shows "rs = []
       \<or> (\<exists>cf_recs content_recs.
             rs = py_prefix limit (sort_by_score_desc (combined_dict cf_recs content_recs limit)))
       \<or> (\<exists>S. content_ranking S ratings movies user_id limit = Inr rs)"
proof (cases "user_rating_count ratings user_id \<ge> MIN_RATINGS_FOR_CF")
  case True
  obtain r1 eng1 where cf:
    "collaborative_filtering_recommendations ratings eng user_id limit = (r1, eng1)"
    by (cases "collaborative_filtering_recommendations ratings eng user_id limit")
  obtain r2 eng2 where cb:
    "content_based_recommendations tfidf ratings movies eng1 user_id (limit div 2) = (r2, eng2)"
    by (cases "content_based_recommendations tfidf ratings movies eng1 user_id (limit div 2)")
  from assms True cf cb show ?thesis
    by (cases r1; cases r2) (auto simp: hybrid_personalized_def)
next
  case False
  show ?thesis
  proof (cases "user_rating_count ratings user_id > 0")
    case True
    with False assms have
      "fst (content_based_recommendations tfidf ratings movies eng user_id limit) = Inr rs"
      by (simp add: hybrid_personalized_def)
    then show ?thesis using content_Inr by blast
  next
    case zero: False
    with False assms show ?thesis by (simp add: hybrid_personalized_def)
  qed
qed

lemma hybrid_Inr:
  assumes "fst (hybrid_recommendations tfidf ratings movies eng user_id limit) = Inr rs"
  shows "rs = get_popular_movies_fallback ratings movies limit
       \<or> fst (hybrid_personalized tfidf ratings movies eng user_id limit) = Inr rs"
proof -
  obtain r eng' where p: "hybrid_personalized tfidf ratings movies eng user_id limit = (r, eng')"
    by (cases "hybrid_personalized tfidf ratings movies eng user_id limit")
  with assms show ?thesis
    by (cases r) (auto simp: hybrid_recommendations_def split: if_splits)
qed

lemma ranked_cases:
  assumes "rs = [] \<or> (\<exists>d. distinct (map fst d) \<and> rs = py_prefix limit (sort_by_score_desc d))"
  shows "non_increasing rs" and "0 \<le> limit \<Longrightarrow> valid_result limit rs"
proof -
  show "non_increasing rs"
    using assms non_increasing_py_prefix [OF non_increasing_sort]
    by (auto simp: non_increasing_def)
  show "valid_result limit rs" if "0 \<le> limit"
    using assms valid_result_ranked [OF that] that by (auto simp: valid_result_def)
qed

lemma collaborative_ranked:
  assumes "fst (collaborative_filtering_recommendations ratings eng user_id limit) = Inr rs"
  shows "rs = [] \<or> (\<exists>d. distinct (map fst d) \<and> rs = py_prefix limit (sort_by_score_desc d))"
  using collaborative_Inr [OF assms] collaborative_ranking_ranked by metis

lemma content_ranked:
  assumes "fst (content_based_recommendations tfidf ratings movies eng user_id limit) = Inr rs"
  shows "rs = [] \<or> (\<exists>d. distinct (map fst d) \<and> rs = py_prefix limit (sort_by_score_desc d))"
  using content_Inr [OF assms] content_ranking_ranked by metis

lemma hybrid_personalized_ranked:
  assumes "fst (hybrid_personalized tfidf ratings movies eng user_id limit) = Inr rs"
  shows "rs = [] \<or> (\<exists>d. distinct (map fst d) \<and> rs = py_prefix limit (sort_by_score_desc d))"
  using hybrid_personalized_Inr [OF assms] content_ranking_ranked distinct_combined_dict
  by metis

lemma distinct_popular_movies: "distinct (map fst (popular_movies ratings))"
proof -
  have "distinct (map fst (movie_popularity ratings))"
    by (rule movie_popularity_invariant [OF dict_invariant_distinct]) simp
  then show ?thesis
    by (simp add: popular_movies_def distinct_keys_sort case_prod_unfold comp_def)
qed

lemma non_increasing_popular_movies: "non_increasing (popular_movies ratings)"
  unfolding popular_movies_def by (rule non_increasing_sort)

lemma distinct_unrated:
  assumes "distinct (map movie_id movies)" and "distinct (map fst popular)"
  shows "distinct (map fst (popular @ unrated_movies movies popular))"
proof -
  have keys: "map fst (unrated_movies movies popular) =
        map movie_id (filter (\<lambda>m. movie_id m \<notin> set (map fst popular)) movies)"
    by (simp add: unrated_movies_def comp_def)
  have "distinct (map movie_id (filter (\<lambda>m. movie_id m \<notin> set (map fst popular)) movies))"
    using assms(1) by (rule distinct_map_filter)
  moreover have "set (map fst popular) \<inter>
     set (map movie_id (filter (\<lambda>m. movie_id m \<notin> set (map fst popular)) movies)) = {}"
    by force
  ultimately show ?thesis using assms(2) unfolding map_append keys distinct_append by blast
qed

lemma popularity_valid:
  assumes "0 \<le> limit" and "distinct (map movie_id movies)"
  shows "valid_result limit (get_popular_movies_fallback ratings movies limit)"
proof (cases "movies = []")
  case True
  with assms(1) show ?thesis by (simp add: get_popular_movies_fallback_def valid_result_def)
next
  case False
  define full where "full = (if int (length (popular_movies ratings)) < limit
      then popular_movies ratings @ unrated_movies movies (popular_movies ratings)
      else popular_movies ratings)"
  have "distinct (map fst full)"
    using distinct_popular_movies [of ratings]
      distinct_unrated [OF assms(2) distinct_popular_movies, of ratings]
    by (simp add: full_def)
  moreover have "get_popular_movies_fallback ratings movies limit = py_prefix limit full"
    using False by (simp add: get_popular_movies_fallback_def Let_def full_def)
  ultimately show ?thesis
    using assms(1) by (simp add: valid_result_def length_py_prefix distinct_keys_py_prefix)
qed

lemma popularity_shape:
  "\<exists>k. non_increasing (take k (get_popular_movies_fallback ratings movies limit))
     \<and> (\<forall>x \<in> set (drop k (get_popular_movies_fallback ratings movies limit)). snd x = 2.5)"
proof (cases "movies = []")
  case True
  then show ?thesis by (simp add: get_popular_movies_fallback_def non_increasing_def)
next
  case False
  define P where "P = popular_movies ratings"
  define U where "U = (if int (length P) < limit then unrated_movies movies P else [])"
  have U: "\<forall>x \<in> set U. snd x = 2.5" by (auto simp: U_def unrated_movies_def)
  have "get_popular_movies_fallback ratings movies limit = py_prefix limit (P @ U)"
    using False by (simp add: get_popular_movies_fallback_def Let_def P_def U_def)
  then obtain j where j: "get_popular_movies_fallback ratings movies limit = take j (P @ U)"
    using py_prefix_is_take by metis
  have "take (min j (length P)) (take j (P @ U)) = take (min j (length P)) P"
    by simp
  then have "non_increasing (take (min j (length P)) (take j (P @ U)))"
    using non_increasing_take [OF non_increasing_popular_movies, of "min j (length P)" ratings]
    by (simp add: P_def)
  moreover have "\<forall>x \<in> set (drop (min j (length P)) (take j (P @ U))). snd x = 2.5"
    using U by (auto simp: min_def dest: in_set_takeD)
  ultimately show ?thesis unfolding j by blast
qed

section \<open>The recommenders on the sample snapshot\<close>

lemma sqrt_25: "sqrt 25 = 5"
  by (rule real_sqrt_unique) simp_all

lemma sqrt_36: "sqrt 36 = 6"
  by (rule real_sqrt_unique) simp_all

lemma sqrt_64: "sqrt 64 = 8"
  by (rule real_sqrt_unique) simp_all

lemma pivot_sample: "pivot_table sample_ratings = sample_matrix"
  by (simp add: pivot_table_def sample_ratings_def sample_matrix_def mk_rating_def np_mean_def)

lemma sample_matrix_fields:
  "mat_index sample_matrix = [''u'', ''v'']"
  "mat_columns sample_matrix = [''a'', ''b'', ''c'', ''d'', ''e'', ''f'', ''g'']"
  "mat_values sample_matrix = [[5, 5, 3, 2, 1, 0, 0], [4, 0, 0, 0, 0, 4, 2]]"
  by (simp_all add: sample_matrix_def)

lemma loc_sample:
  "loc sample_matrix ''u'' = [5, 5, 3, 2, 1, 0, 0]"
  "loc sample_matrix ''v'' = [4, 0, 0, 0, 0, 4, 2]"
  by (simp_all add: loc_def sample_matrix_fields)

lemma sims_sample: "user_similarity sample_matrix ''u'' = [1, 5/12]"
  by (simp add: user_similarity_def loc_sample cosine_similarity_def normalize_row_def
      norm_divisor_def row_norm_def dot_def sample_matrix_fields sqrt_64 sqrt_36)

lemma idx_sample: "similar_users_idx sample_matrix ''u'' = [1]"
  by (simp add: similar_users_idx_def sims_sample argsort_def)

lemma user_movies_sample:
  "user_movies sample_matrix ''u'' = {''a'', ''b'', ''c'', ''d'', ''e''}"
  by (simp add: user_movies_def loc_sample sample_matrix_fields)

lemma contrib_sample:
  "cf_contributions sample_matrix ''u'' = [(''f'', [5/3]), (''g'', [5/6])]"
  by (simp add: cf_contributions_def idx_sample sims_sample user_movies_sample
      sample_matrix_fields loc_sample)

lemma ranking_sample:
  "collaborative_ranking sample_matrix ''u'' 2 = [(''f'', 5/3), (''g'', 5/6)]"
  by (simp add: collaborative_ranking_def contrib_sample movie_scores_def np_mean_def
      sort_by_score_desc_def py_prefix_def sample_matrix_fields)

lemma collaborative_sample:
  "collaborative_filtering_recommendations sample_ratings new_engine ''u'' 2 =
     (Inr [(''f'', 5/3), (''g'', 5/6)],
      new_engine\<lparr>engine_user_item_matrix := Some sample_matrix\<rparr>)"
proof -
  have "ensure_user_item_matrix sample_ratings new_engine =
        new_engine\<lparr>engine_user_item_matrix := Some sample_matrix\<rparr>"
    by (simp add: ensure_user_item_matrix_def build_user_item_matrix_def new_engine_def
        pivot_sample) (simp add: sample_ratings_def)
  then show ?thesis
    by (simp add: collaborative_filtering_recommendations_def ranking_sample)
qed

lemma similarity_sample:
  "cosine_similarity [[3, 4], [4, 3], [1, 0]] [[3, 4], [4, 3], [1, 0]] = sample_similarity"
  by (simp add: cosine_similarity_def normalize_row_def norm_divisor_def row_norm_def dot_def
      sample_similarity_def sqrt_25)

lemma ensure_content_sample:
  "ensure_content_features sample_tfidf sample_movies
     (new_engine\<lparr>engine_user_item_matrix := Some sample_matrix\<rparr>) = Inr sample_engine"
  by (simp add: ensure_content_features_def build_content_features_def new_engine_def
      sample_tfidf_def similarity_sample sample_engine_def) (simp add: sample_movies_def)

lemma content_ranking_sample:
  "content_ranking (Some sample_similarity) sample_ratings sample_movies ''u'' 1 =
     Inr [(''f'', 24/25)]"
  by (simp add: content_ranking_def sample_ratings_def sample_movies_def mk_rating_def
      mk_movie_def sample_similarity_def movie_scores_def np_mean_def sort_by_score_desc_def
      py_prefix_def)

lemma content_sample:
  "content_based_recommendations sample_tfidf sample_ratings sample_movies
     (new_engine\<lparr>engine_user_item_matrix := Some sample_matrix\<rparr>) ''u'' 1 =
     (Inr [(''f'', 24/25)], sample_engine)"
  by (simp add: content_based_recommendations_def ensure_content_sample)
     (simp add: sample_engine_def content_ranking_sample)

lemma count_sample: "user_rating_count sample_ratings ''u'' = 5"
  by (simp add: user_rating_count_def sample_ratings_def mk_rating_def)

lemma hybrid_sample:
  "hybrid_recommendations sample_tfidf sample_ratings sample_movies new_engine ''u'' 2 =
     (Inr [(''f'', 1091/750)], sample_engine)"
  by (simp add: hybrid_recommendations_def hybrid_personalized_def count_sample
      MIN_RATINGS_FOR_CF_def collaborative_sample content_sample combined_dict_def
      py_prefix_def sort_by_score_desc_def)

lemma content_ranking_sample_2:
  "content_ranking (Some sample_similarity) sample_ratings sample_movies ''u'' 2 =
     Inr [(''f'', 24/25), (''g'', 3/5)]"
  by (simp add: content_ranking_def sample_ratings_def sample_movies_def mk_rating_def
      mk_movie_def sample_similarity_def movie_scores_def np_mean_def sort_by_score_desc_def
      py_prefix_def)

lemma content_sample_2:
  "content_based_recommendations sample_tfidf sample_ratings sample_movies
     (new_engine\<lparr>engine_user_item_matrix := Some sample_matrix\<rparr>) ''u'' 2 =
     (Inr [(''f'', 24/25), (''g'', 3/5)], sample_engine)"
  by (simp add: content_based_recommendations_def ensure_content_sample)
     (simp add: sample_engine_def content_ranking_sample_2)

lemma ensure_content_new:
  "ensure_content_features sample_tfidf sample_movies new_engine =
     Inr (new_engine\<lparr>engine_content_similarity_matrix := Some sample_similarity\<rparr>)"
  by (simp add: ensure_content_features_def build_content_features_def new_engine_def
      sample_tfidf_def similarity_sample) (simp add: sample_movies_def)

lemma content_new_2:
  "fst (content_based_recommendations sample_tfidf sample_ratings sample_movies
     new_engine ''u'' 2) = Inr [(''f'', 24/25), (''g'', 3/5)]"
  by (simp add: content_based_recommendations_def ensure_content_new content_ranking_sample_2)

lemma distinct_sample_movies: "distinct (map movie_id sample_movies)"
  by (simp add: sample_movies_def mk_movie_def)

section \<open>Length and distinctness of the results\<close>

text \<open>
  Claim C4, as the code has it. For every limit that is not negative, a result of the
  collaborative recommender and of the content recommender has at most \<open>limit\<close> entries and
  pairwise distinct movie ids. The same holds for the popularity fallback, and so for the
  hybrid recommender, when the movie ids of the snapshot are pairwise distinct: the fallback
  appends every movie of the snapshot that has no rating, once per occurrence.
\<close>

theorem results_within_limit_and_distinct:
  assumes "0 \<le> limit"
  shows "(fst (collaborative_filtering_recommendations ratings eng user_id limit) = Inr cf_rs
            \<longrightarrow> valid_result limit cf_rs)
       \<and> (fst (content_based_recommendations tfidf ratings movies eng user_id limit)
            = Inr content_rs \<longrightarrow> valid_result limit content_rs)
       \<and> (distinct (map movie_id movies)
            \<longrightarrow> valid_result limit (get_popular_movies_fallback ratings movies limit))
       \<and> (distinct (map movie_id movies)
            \<longrightarrow> fst (hybrid_recommendations tfidf ratings movies eng user_id limit)
                  = Inr hybrid_rs
            \<longrightarrow> valid_result limit hybrid_rs)"
proof (intro conjI impI)
  assume "fst (collaborative_filtering_recommendations ratings eng user_id limit) = Inr cf_rs"
  then show "valid_result limit cf_rs"
    using ranked_cases(2) [OF collaborative_ranked assms] by blast
next
  assume "fst (content_based_recommendations tfidf ratings movies eng user_id limit)
            = Inr content_rs"
  then show "valid_result limit content_rs"
    using ranked_cases(2) [OF content_ranked assms] by blast
next
  assume "distinct (map movie_id movies)"
  with assms show "valid_result limit (get_popular_movies_fallback ratings movies limit)"
    by (rule popularity_valid)
next
  assume d: "distinct (map movie_id movies)"
    and h: "fst (hybrid_recommendations tfidf ratings movies eng user_id limit) = Inr hybrid_rs"
  from hybrid_Inr [OF h] show "valid_result limit hybrid_rs"
  proof
    assume "hybrid_rs = get_popular_movies_fallback ratings movies limit"
    with assms d show ?thesis by (simp add: popularity_valid)
  next
    assume "fst (hybrid_personalized tfidf ratings movies eng user_id limit) = Inr hybrid_rs"
    then show ?thesis using ranked_cases(2) [OF hybrid_personalized_ranked assms] by blast
  qed
qed

text \<open>The four parts on the sample snapshot, with limit 2.\<close>

theorem results_within_limit_and_distinct_witness:
  "(0::int) \<le> 2
   \<and> fst (collaborative_filtering_recommendations sample_ratings new_engine ''u'' 2)
       = Inr [(''f'', 5/3), (''g'', 5/6)]
   \<and> valid_result 2 [(''f'', 5/3), (''g'', 5/6)]
   \<and> fst (content_based_recommendations sample_tfidf sample_ratings sample_movies
            new_engine ''u'' 2) = Inr [(''f'', 24/25), (''g'', 3/5)]
   \<and> valid_result 2 [(''f'', 24/25), (''g'', 3/5)]
   \<and> distinct (map movie_id sample_movies)
   \<and> valid_result 2 (get_popular_movies_fallback sample_ratings sample_movies 2)
   \<and> fst (hybrid_recommendations sample_tfidf sample_ratings sample_movies new_engine ''u'' 2)
       = Inr [(''f'', 1091/750)]
   \<and> valid_result 2 [(''f'', 1091/750)]"
  using results_within_limit_and_distinct [of 2 sample_ratings new_engine "''u''"
      "[(''f'', 5/3), (''g'', 5/6)]" sample_tfidf sample_movies
      "[(''f'', 24/25), (''g'', 3/5)]" "[(''f'', 1091/750)]"]
  by (simp add: collaborative_sample content_new_2 distinct_sample_movies hybrid_sample)

text \<open>
  Claim C4 as stated fails on a snapshot that lists the same movie id twice and has no
  rating: the fallback returns the id twice.
\<close>

theorem popularity_duplicate_items_counterexample:
  "\<not> distinct (map fst (get_popular_movies_fallback [] [mk_movie ''m1'', mk_movie ''m1''] 2))"
  by (simp add: get_popular_movies_fallback_def popular_movies_Nil unrated_movies_Nil
      py_prefix_def mk_movie_def)

section \<open>Order of the scores\<close>

text \<open>
  Claim C2, as the code has it. The scores of a collaborative result and of a content
  result never increase. A hybrid result is either the result of the popularity fallback or
  has scores that never increase. The result of the popularity fallback is a run of rated
  movies whose scores never increase, followed by movies without a rating that all have the
  score 2.5 (which may exceed the scores before it).
\<close>

theorem scores_non_increasing_outside_fallback:
  "(fst (collaborative_filtering_recommendations ratings eng user_id limit) = Inr cf_rs
      \<longrightarrow> non_increasing cf_rs)
   \<and> (fst (content_based_recommendations tfidf ratings movies eng user_id limit)
        = Inr content_rs \<longrightarrow> non_increasing content_rs)
   \<and> (fst (hybrid_recommendations tfidf ratings movies eng user_id limit) = Inr hybrid_rs
        \<longrightarrow> hybrid_rs = get_popular_movies_fallback ratings movies limit
            \<or> non_increasing hybrid_rs)
   \<and> (\<exists>k. non_increasing (take k (get_popular_movies_fallback ratings movies limit))
          \<and> (\<forall>x \<in> set (drop k (get_popular_movies_fallback ratings movies limit)).
                snd x = 2.5))"
proof (intro conjI impI)
  assume "fst (collaborative_filtering_recommendations ratings eng user_id limit) = Inr cf_rs"
  then show "non_increasing cf_rs" using ranked_cases(1) [OF collaborative_ranked] by blast
next
  assume "fst (content_based_recommendations tfidf ratings movies eng user_id limit)
            = Inr content_rs"
  then show "non_increasing content_rs" using ranked_cases(1) [OF content_ranked] by blast
next
  assume h: "fst (hybrid_recommendations tfidf ratings movies eng user_id limit) = Inr hybrid_rs"
  from hybrid_Inr [OF h]
  show "hybrid_rs = get_popular_movies_fallback ratings movies limit \<or> non_increasing hybrid_rs"
    using ranked_cases(1) [OF hybrid_personalized_ranked] by blast
next
  show "\<exists>k. non_increasing (take k (get_popular_movies_fallback ratings movies limit))
          \<and> (\<forall>x \<in> set (drop k (get_popular_movies_fallback ratings movies limit)).
                snd x = 2.5)"
    by (rule popularity_shape)
qed

text \<open>The parts on the sample snapshot; the fallback on the catalogue without ratings.\<close>

theorem scores_non_increasing_outside_fallback_witness:
  "fst (collaborative_filtering_recommendations sample_ratings new_engine ''u'' 2)
       = Inr [(''f'', 5/3), (''g'', 5/6)]
   \<and> non_increasing [(''f'', 5/3), (''g'', 5/6)]
   \<and> fst (content_based_recommendations sample_tfidf sample_ratings sample_movies
            new_engine ''u'' 2) = Inr [(''f'', 24/25), (''g'', 3/5)]
   \<and> non_increasing [(''f'', 24/25), (''g'', 3/5)]
   \<and> fst (hybrid_recommendations sample_tfidf sample_ratings sample_movies new_engine ''u'' 2)
       = Inr [(''f'', 1091/750)]
   \<and> non_increasing [(''f'', 1091/750)]
   \<and> (\<exists>k. non_increasing (take k (get_popular_movies_fallback [] sample_movies 2))
          \<and> (\<forall>x \<in> set (drop k (get_popular_movies_fallback [] sample_movies 2)).
                snd x = 2.5))"
  using scores_non_increasing_outside_fallback [of sample_ratings new_engine "''u''" 2
      "[(''f'', 5/3), (''g'', 5/6)]" sample_tfidf sample_movies
      "[(''f'', 24/25), (''g'', 3/5)]" "[(''f'', 1091/750)]"]
    scores_non_increasing_outside_fallback [of "[]" new_engine "''u''" 2
      "[]" sample_tfidf sample_movies "[]" "[]"]
  by (simp add: collaborative_sample content_new_2 hybrid_sample non_increasing_def)

text \<open>
  Claim C2 as stated fails for the fallback: one movie rated once with score 1 gets
  \<open>1 * ln 2\<close>, and the movie without a rating follows it with 2.5.
\<close>

theorem popularity_not_sorted_counterexample:
  "get_popular_movies_fallback [mk_rating ''u1'' ''m1'' 1] [mk_movie ''m1'', mk_movie ''m2''] 2
     = [(''m1'', ln 2), (''m2'', 2.5)]
   \<and> \<not> non_increasing
        (get_popular_movies_fallback [mk_rating ''u1'' ''m1'' 1]
           [mk_movie ''m1'', mk_movie ''m2''] 2)"
proof -
  have pop: "popular_movies [mk_rating ''u1'' ''m1'' 1] = [(''m1'', ln 2)]"
    by (simp add: popular_movies_def movie_popularity_def mk_rating_def np_mean_def
        sort_by_score_desc_def)
  have eq: "get_popular_movies_fallback [mk_rating ''u1'' ''m1'' 1]
              [mk_movie ''m1'', mk_movie ''m2''] 2 = [(''m1'', ln 2), (''m2'', 2.5)]"
    by (simp add: get_popular_movies_fallback_def pop unrated_movies_def py_prefix_def
        mk_movie_def)
  have "ln (2::real) < 2" by (rule ln_less_self) simp
  then have less: "\<not> (5 \<le> ln (2::real) * 2)" by linarith
  have "non_increasing [(''m1'', ln 2), (''m2'', 5/2)] \<longleftrightarrow> 5 \<le> ln (2::real) * 2"
    by (simp add: non_increasing_def)
  with less have ni: "\<not> non_increasing [(''m1'', ln 2), (''m2'', 5/2)]"
    by blast
  show ?thesis
  proof
    show "get_popular_movies_fallback [mk_rating ''u1'' ''m1'' 1]
            [mk_movie ''m1'', mk_movie ''m2''] 2 = [(''m1'', ln 2), (''m2'', 2.5)]"
      by (rule eq)
    show "\<not> non_increasing (get_popular_movies_fallback [mk_rating ''u1'' ''m1'' 1]
            [mk_movie ''m1'', mk_movie ''m2''] 2)"
      using ni unfolding eq by simp
  qed
qed

section \<open>The combined dictionary as a map\<close>

lemma map_of_dict_set: "map_of (dict_set k v d) = (map_of d)(k \<mapsto> v)"
  by (induction d) (auto simp: fun_eq_iff)

lemma map_of_dict_add:
  "map_of (dict_add k v d) =
     (map_of d)(k \<mapsto> (case map_of d k of None \<Rightarrow> v | Some w \<Rightarrow> w + v))"
  by (induction d) (auto simp: fun_eq_iff)

lemma map_of_fold_dict_set:
  "distinct (map fst xs) \<Longrightarrow>
   map_of (fold (\<lambda>rec d. dict_set (fst rec) (snd rec * c) d) xs d0) m =
     (case map_of xs m of None \<Rightarrow> map_of d0 m | Some a \<Rightarrow> Some (a * c))"
proof (induction xs arbitrary: d0)
  case Nil
  then show ?case by simp
next
  case (Cons x xs)
  obtain k a where x: "x = (k, a)" by (cases x)
  from Cons.prems x have notin: "map_of xs k = None" and d: "distinct (map fst xs)"
    by (auto simp: map_of_eq_None_iff)
  show ?case using Cons.IH [OF d, of "dict_set k (a * c) d0"] notin
    by (simp add: x map_of_dict_set split: option.splits)
qed

lemma map_of_fold_dict_add:
  "distinct (map fst xs) \<Longrightarrow>
   map_of (fold (\<lambda>rec d. dict_add (fst rec) (snd rec * c) d) xs d0) m =
     (case map_of xs m of
        None \<Rightarrow> map_of d0 m
      | Some b \<Rightarrow> Some (case map_of d0 m of None \<Rightarrow> b * c | Some w \<Rightarrow> w + b * c))"
proof (induction xs arbitrary: d0)
  case Nil
  then show ?case by simp
next
  case (Cons x xs)
  obtain k b where x: "x = (k, b)" by (cases x)
  from Cons.prems x have notin: "map_of xs k = None" and d: "distinct (map fst xs)"
    by (auto simp: map_of_eq_None_iff)
  show ?case using Cons.IH [OF d, of "dict_add k (b * c) d0"] notin
    by (simp add: x map_of_dict_add split: option.splits)
qed

lemma ranked_distinct:
  assumes "rs = [] \<or> (\<exists>d. distinct (map fst d) \<and> rs = py_prefix limit (sort_by_score_desc d))"
  shows "distinct (map fst rs)"
  using assms by (auto simp: distinct_keys_py_prefix distinct_keys_sort)

lemma map_of_combined_dict:
  assumes "distinct (map fst cf_recs)" and "distinct (map fst content_recs)"
  shows "map_of (combined_dict cf_recs content_recs limit) m =
         blend_score (py_prefix (limit div 2) cf_recs) content_recs m"
proof -
  have d: "distinct (map fst (py_prefix (limit div 2) cf_recs))"
    using assms(1) by (rule distinct_keys_py_prefix)
  define d1 where "d1 = fold (\<lambda>rec d. dict_set (fst rec) (snd rec * 0.7) d)
                          (py_prefix (limit div 2) cf_recs) []"
  have cf: "map_of d1 m =
      (case map_of (py_prefix (limit div 2) cf_recs) m of None \<Rightarrow> None
       | Some a \<Rightarrow> Some (a * 0.7))"
    unfolding d1_def using map_of_fold_dict_set [OF d, of "0.7" "[]" m]
    by (simp split: option.splits)
  have "map_of (combined_dict cf_recs content_recs limit) m =
      (case map_of content_recs m of None \<Rightarrow> map_of d1 m
       | Some b \<Rightarrow> Some (case map_of d1 m of None \<Rightarrow> b * 0.3 | Some w \<Rightarrow> w + b * 0.3))"
    unfolding combined_dict_def d1_def [symmetric]
    by (rule map_of_fold_dict_add [OF assms(2)])
  then show ?thesis
    unfolding blend_score_def cf by (simp split: option.splits)
qed

section \<open>The blended branch of the hybrid recommender\<close>

lemma hybrid_personalized_blend:
  assumes "MIN_RATINGS_FOR_CF \<le> user_rating_count ratings user_id"
    and "collaborative_filtering_recommendations ratings eng user_id limit = (Inr cf_recs, eng1)"
    and "content_based_recommendations tfidf ratings movies eng1 user_id (limit div 2)
           = (Inr content_recs, eng2)"
  shows "hybrid_personalized tfidf ratings movies eng user_id limit =
           (Inr (py_prefix limit (sort_by_score_desc (combined_dict cf_recs content_recs limit))),
            eng2)"
  using assms by (simp add: hybrid_personalized_def)

text \<open>
  Claim C1, as the code has it. For a user with at least 5 ratings, let \<open>cf_recs\<close> be the
  collaborative result for \<open>limit\<close> and \<open>content_recs\<close> the content result for
  \<open>limit div 2\<close>. Only the first \<open>limit div 2\<close> entries of \<open>cf_recs\<close> enter the combined
  map, each with 0.7 times its score; every entry of \<open>content_recs\<close> adds 0.3 times its score,
  on top of a collaborative part if there is one. The combined map, sorted by score
  descending and cut to \<open>limit\<close>, is the output, unless it is empty: then the output is the
  result of the popularity fallback.
\<close>

theorem hybrid_blend_of_truncated_collaborative:
  assumes "5 \<le> user_rating_count ratings user_id"
    and "collaborative_filtering_recommendations ratings eng user_id limit = (Inr cf_recs, eng1)"
    and "content_based_recommendations tfidf ratings movies eng1 user_id (limit div 2)
           = (Inr content_recs, eng2)"
  shows "(\<forall>m. map_of (combined_dict cf_recs content_recs limit) m
              = blend_score (py_prefix (limit div 2) cf_recs) content_recs m)
       \<and> distinct (map fst (combined_dict cf_recs content_recs limit))
       \<and> fst (hybrid_recommendations tfidf ratings movies eng user_id limit) =
           Inr (let blended = py_prefix limit
                                (sort_by_score_desc (combined_dict cf_recs content_recs limit))
                in if blended = [] then get_popular_movies_fallback ratings movies limit
                   else blended)"
proof (intro conjI allI)
  fix m
  have "distinct (map fst cf_recs)"
    using assms(2) ranked_distinct [OF collaborative_ranked]
    by (metis fst_conv)
  moreover have "distinct (map fst content_recs)"
    using assms(3) ranked_distinct [OF content_ranked]
    by (metis fst_conv)
  ultimately show "map_of (combined_dict cf_recs content_recs limit) m
                   = blend_score (py_prefix (limit div 2) cf_recs) content_recs m"
    by (rule map_of_combined_dict)
next
  show "distinct (map fst (combined_dict cf_recs content_recs limit))"
    by (rule distinct_combined_dict)
next
  have "MIN_RATINGS_FOR_CF \<le> user_rating_count ratings user_id"
    using assms(1) by (simp add: MIN_RATINGS_FOR_CF_def)
  from hybrid_personalized_blend [OF this assms(2) assms(3)]
  show "fst (hybrid_recommendations tfidf ratings movies eng user_id limit) =
           Inr (let blended = py_prefix limit
                                (sort_by_score_desc (combined_dict cf_recs content_recs limit))
                in if blended = [] then get_popular_movies_fallback ratings movies limit
                   else blended)"
    by (simp add: hybrid_recommendations_def Let_def)
qed

text \<open>
  On the sample snapshot with limit 2 the second collaborative entry \<open>g\<close> is cut off before
  the blend.
\<close>

lemma combined_sample:
  "combined_dict [(''f'', 5/3), (''g'', 5/6)] [(''f'', 24/25)] 2 = [(''f'', 1091/750)]"
  by (simp add: combined_dict_def py_prefix_def)

theorem hybrid_blend_of_truncated_collaborative_witness:
  "5 \<le> user_rating_count sample_ratings ''u''
   \<and> collaborative_filtering_recommendations sample_ratings new_engine ''u'' 2 =
       (Inr [(''f'', 5/3), (''g'', 5/6)],
        new_engine\<lparr>engine_user_item_matrix := Some sample_matrix\<rparr>)
   \<and> content_based_recommendations sample_tfidf sample_ratings sample_movies
         (new_engine\<lparr>engine_user_item_matrix := Some sample_matrix\<rparr>) ''u'' (2 div 2)
       = (Inr [(''f'', 24/25)], sample_engine)
   \<and> blend_score (py_prefix (2 div 2) [(''f'', 5/3), (''g'', 5/6)]) [(''f'', 24/25)] ''f''
       = Some (1091/750)
   \<and> blend_score (py_prefix (2 div 2) [(''f'', 5/3), (''g'', 5/6)]) [(''f'', 24/25)] ''g''
       = None
   \<and> fst (hybrid_recommendations sample_tfidf sample_ratings sample_movies new_engine ''u'' 2)
       = Inr [(''f'', 1091/750)]"
  using hybrid_blend_of_truncated_collaborative [of sample_ratings "''u''" new_engine 2
      "[(''f'', 5/3), (''g'', 5/6)]"
      "new_engine\<lparr>engine_user_item_matrix := Some sample_matrix\<rparr>"
      sample_tfidf sample_movies "[(''f'', 24/25)]" sample_engine]
  by (simp add: count_sample collaborative_sample content_sample combined_sample
      sort_by_score_desc_def py_prefix_def blend_score_def)

text \<open>
  Claim C1 as stated fails there: the blend of the whole collaborative result would also
  hold \<open>g\<close>, with 0.7 times its collaborative score.
\<close>

theorem hybrid_blend_counterexample:
  "MIN_RATINGS_FOR_CF \<le> user_rating_count sample_ratings ''u''
   \<and> collaborative_filtering_recommendations sample_ratings new_engine ''u'' 2 =
       (Inr [(''f'', 5/3), (''g'', 5/6)],
        new_engine\<lparr>engine_user_item_matrix := Some sample_matrix\<rparr>)
   \<and> content_based_recommendations sample_tfidf sample_ratings sample_movies
         (new_engine\<lparr>engine_user_item_matrix := Some sample_matrix\<rparr>) ''u'' (2 div 2)
       = (Inr [(''f'', 24/25)], sample_engine)
   \<and> specified_blend [(''f'', 5/3), (''g'', 5/6)] [(''f'', 24/25)] 2
       = [(''f'', 1091/750), (''g'', 7/12)]
   \<and> fst (hybrid_recommendations sample_tfidf sample_ratings sample_movies new_engine ''u'' 2)
       \<noteq> Inr (specified_blend [(''f'', 5/3), (''g'', 5/6)] [(''f'', 24/25)] 2)"
proof -
  have spec: "specified_blend [(''f'', 5/3), (''g'', 5/6)] [(''f'', 24/25)] 2
       = [(''f'', 1091/750), (''g'', 7/12)]"
    by (simp add: specified_blend_def py_prefix_def sort_by_score_desc_def)
  show ?thesis
    unfolding spec
    by (simp add: count_sample collaborative_sample content_sample hybrid_sample
        MIN_RATINGS_FOR_CF_def)
qed

section \<open>When the recommenders return\<close>

lemma list_index_less: "x \<in> set xs \<Longrightarrow> list_index xs x < length xs"
  by (induction xs) auto

lemma content_row_returns:
  "i + length row \<le> length movie_ids \<Longrightarrow>
   \<exists>d'. content_row movie_ids rated liked i row d = Inr d'"
  by (induction row arbitrary: i d) simp_all

lemma content_contributions_no_movies:
  "content_contributions S [] rated liked d = Inr d"
  by (induction liked arbitrary: d) simp_all

lemma content_contributions_returns:
  assumes "length movie_ids \<le> length rows"
    and "\<forall>row \<in> set rows. length row \<le> length movie_ids"
  shows "\<exists>d'. content_contributions (Some rows) movie_ids rated liked d = Inr d'"
proof (induction liked arbitrary: d)
  case Nil
  then show ?case by simp
next
  case (Cons l liked)
  show ?case
  proof (cases "l \<in> set movie_ids")
    case False
    with Cons.IH [of d] show ?thesis by simp
  next
    case True
    then have idx: "list_index movie_ids l < length rows"
      using list_index_less [of l movie_ids] assms(1) by simp
    then have "length (rows ! list_index movie_ids l) \<le> length movie_ids"
      using assms(2) by simp
    then obtain d1 where
      "content_row movie_ids rated l 0 (rows ! list_index movie_ids l) d = Inr d1"
      using content_row_returns [of 0 "rows ! list_index movie_ids l" movie_ids rated l d]
      by auto
    with True idx Cons.IH [of d1] show ?thesis by simp
  qed
qed

lemma content_ranking_eq:
  "content_ranking S ratings movies user_id limit = Inr []
   \<or> (\<exists>rated liked.
         content_ranking S ratings movies user_id limit =
           (case content_contributions S (map movie_id movies) rated liked [] of
              Inl e \<Rightarrow> Inl e
            | Inr recommendations \<Rightarrow>
                Inr (py_prefix limit (sort_by_score_desc (movie_scores recommendations)))))"
proof -
  define user_ratings where "user_ratings = filter (\<lambda>r. userId r = user_id) ratings"
  define liked where "liked = map movieId (filter (\<lambda>r. score r \<ge> 4) user_ratings)"
  have unfold: "content_ranking S ratings movies user_id limit =
     (if user_ratings = [] then Inr []
      else if liked = [] then Inr []
      else (case content_contributions S (map movie_id movies) (map movieId user_ratings)
                   liked [] of
              Inl e \<Rightarrow> Inl e
            | Inr recommendations \<Rightarrow>
                Inr (py_prefix limit (sort_by_score_desc (movie_scores recommendations)))))"
    unfolding content_ranking_def Let_def user_ratings_def liked_def ..
  show ?thesis
  proof (cases "user_ratings = [] \<or> liked = []")
    case True
    with unfold have "content_ranking S ratings movies user_id limit = Inr []"
      by (cases "user_ratings = []") simp_all
    then show ?thesis by simp
  next
    case False
    with unfold show ?thesis by auto
  qed
qed

lemma content_ranking_returns:
  assumes "movies = [] \<or> (\<exists>rows. S = Some rows \<and> content_matrix_fits rows movies)"
  shows "\<exists>rs. content_ranking S ratings movies user_id limit = Inr rs"
proof -
  have ok: "\<exists>d'. content_contributions S (map movie_id movies) rated liked [] = Inr d'"
    for rated liked
    using assms
  proof
    assume "movies = []"
    then show ?thesis by (simp add: content_contributions_no_movies)
  next
    assume "\<exists>rows. S = Some rows \<and> content_matrix_fits rows movies"
    then obtain rows where S: "S = Some rows" and fits: "content_matrix_fits rows movies"
      by blast
    from fits show ?thesis
      unfolding S content_matrix_fits_def list_all_iff
      by (intro content_contributions_returns) simp_all
  qed
  from content_ranking_eq [of S ratings movies user_id limit] show ?thesis
  proof
    assume "content_ranking S ratings movies user_id limit = Inr []"
    then show ?thesis by simp
  next
    assume "\<exists>rated liked.
         content_ranking S ratings movies user_id limit =
           (case content_contributions S (map movie_id movies) rated liked [] of
              Inl e \<Rightarrow> Inl e
            | Inr recommendations \<Rightarrow>
                Inr (py_prefix limit (sort_by_score_desc (movie_scores recommendations))))"
    then obtain rated liked where eq: "content_ranking S ratings movies user_id limit =
           (case content_contributions S (map movie_id movies) rated liked [] of
              Inl e \<Rightarrow> Inl e
            | Inr recommendations \<Rightarrow>
                Inr (py_prefix limit (sort_by_score_desc (movie_scores recommendations))))"
      by blast
    from ok [of rated liked] obtain d' where
      "content_contributions S (map movie_id movies) rated liked [] = Inr d'" by blast
    with eq show ?thesis by simp
  qed
qed

lemma length_cosine_similarity:
  "length (cosine_similarity X Y) = length X"
  "\<forall>row \<in> set (cosine_similarity X Y). length row = length Y"
  by (auto simp: cosine_similarity_def)

lemma ensure_content_available:
  assumes "content_available tfidf movies eng"
  shows "\<exists>eng1. ensure_content_features tfidf movies eng = Inr eng1
           \<and> (movies = [] \<or> (\<exists>rows. engine_content_similarity_matrix eng1 = Some rows
                                  \<and> content_matrix_fits rows movies))"
proof (cases "engine_content_similarity_matrix eng")
  case (Some S)
  with assms show ?thesis
    by (simp add: ensure_content_features_def content_available_def)
next
  case None
  show ?thesis
  proof (cases "movies = []")
    case True
    with None show ?thesis
      by (simp add: ensure_content_features_def build_content_features_def)
  next
    case False
    with None assms obtain X where X: "tfidf (map movie_text movies) = Inr X"
      and len: "length X = length movies"
      by (auto simp: content_available_def split: sum.splits)
    have "content_matrix_fits (cosine_similarity X X) movies"
      using len length_cosine_similarity [of X X]
      by (simp add: content_matrix_fits_def list_all_iff)
    with None False X show ?thesis
      by (simp add: ensure_content_features_def build_content_features_def)
  qed
qed

lemma content_based_returns:
  assumes "content_available tfidf movies eng"
  shows "\<exists>rs eng1. content_based_recommendations tfidf ratings movies eng user_id limit
           = (Inr rs, eng1)"
proof -
  from ensure_content_available [OF assms] obtain eng1 where
    e: "ensure_content_features tfidf movies eng = Inr eng1" and
    fits: "movies = [] \<or> (\<exists>rows. engine_content_similarity_matrix eng1 = Some rows
                                  \<and> content_matrix_fits rows movies)"
    by blast
  from content_ranking_returns [OF fits] obtain rs where
    "content_ranking (engine_content_similarity_matrix eng1) ratings movies user_id limit
       = Inr rs" by blast
  with e show ?thesis by (simp add: content_based_recommendations_def)
qed

lemma ensure_user_item_matrix_content:
  "engine_content_similarity_matrix (ensure_user_item_matrix ratings eng)
     = engine_content_similarity_matrix eng"
  by (simp add: ensure_user_item_matrix_def build_user_item_matrix_def)

lemma collaborative_state:
  "snd (collaborative_filtering_recommendations ratings eng user_id limit)
     = ensure_user_item_matrix ratings eng"
  by (simp add: collaborative_filtering_recommendations_def Let_def split: option.splits)

lemma collaborative_returns:
  assumes "ratings \<noteq> []"
  shows "\<exists>cf_recs. collaborative_filtering_recommendations ratings eng user_id limit
           = (Inr cf_recs, ensure_user_item_matrix ratings eng)"
proof -
  have "engine_user_item_matrix (ensure_user_item_matrix ratings eng) \<noteq> None"
    using assms by (simp add: ensure_user_item_matrix_def build_user_item_matrix_def)
  then show ?thesis
    by (auto simp: collaborative_filtering_recommendations_def Let_def)
qed

lemma rated_nonempty: "0 < user_rating_count ratings user_id \<Longrightarrow> ratings \<noteq> []"
  by (auto simp: user_rating_count_def)

lemma content_ranking_limit_0:
  assumes "content_ranking S ratings movies user_id 0 = Inr rs"
  shows "rs = []"
  using content_ranking_eq [of S ratings movies user_id 0]
proof
  assume "content_ranking S ratings movies user_id 0 = Inr []"
  with assms show ?thesis by simp
next
  assume "\<exists>rated liked.
         content_ranking S ratings movies user_id 0 =
           (case content_contributions S (map movie_id movies) rated liked [] of
              Inl e \<Rightarrow> Inl e
            | Inr recommendations \<Rightarrow>
                Inr (py_prefix 0 (sort_by_score_desc (movie_scores recommendations))))"
  then obtain c where "content_ranking S ratings movies user_id 0 =
           (case c of Inl e \<Rightarrow> Inl e
            | Inr recommendations \<Rightarrow>
                Inr (py_prefix 0 (sort_by_score_desc (movie_scores recommendations))))"
    by blast
  with assms show ?thesis by (cases c) (simp_all add: py_prefix_def)
qed

lemma content_based_limit_0:
  "content_based_recommendations tfidf ratings movies eng user_id 0 = (Inr rs, eng') \<Longrightarrow> rs = []"
  unfolding content_based_recommendations_def
  by (auto split: sum.splits dest: content_ranking_limit_0)

lemma combined_dict_limit_1: "combined_dict cf_recs [] 1 = []"
  by (simp add: combined_dict_def py_prefix_def)

section \<open>Branches of the hybrid recommender\<close>

lemma content_available_ensure_user_item_matrix:
  "content_available tfidf movies (ensure_user_item_matrix ratings eng)
     = content_available tfidf movies eng"
  by (simp add: content_available_def ensure_user_item_matrix_content)

lemma five_ratings_nonempty: "5 \<le> user_rating_count ratings user_id \<Longrightarrow> ratings \<noteq> []"
  using rated_nonempty [of ratings user_id] by simp

lemma hybrid_blended_branch:
  assumes "5 \<le> user_rating_count ratings user_id"
  shows "\<exists>cf_recs.
           collaborative_filtering_recommendations ratings eng user_id limit
             = (Inr cf_recs, ensure_user_item_matrix ratings eng)
         \<and> fst (hybrid_recommendations tfidf ratings movies eng user_id limit) =
             (case fst (content_based_recommendations tfidf ratings movies
                          (ensure_user_item_matrix ratings eng) user_id (limit div 2)) of
                Inl e \<Rightarrow> Inl e
              | Inr content_recs \<Rightarrow>
                  Inr (let blended = py_prefix limit (sort_by_score_desc
                                       (combined_dict cf_recs content_recs limit))
                       in if blended = [] then get_popular_movies_fallback ratings movies limit
                          else blended))"
proof -
  from collaborative_returns [OF five_ratings_nonempty [OF assms]]
  obtain cf_recs where cf: "collaborative_filtering_recommendations ratings eng user_id limit
             = (Inr cf_recs, ensure_user_item_matrix ratings eng)"
    by blast
  obtain r2 eng2 where cb: "content_based_recommendations tfidf ratings movies
      (ensure_user_item_matrix ratings eng) user_id (limit div 2) = (r2, eng2)"
    by (cases "content_based_recommendations tfidf ratings movies
      (ensure_user_item_matrix ratings eng) user_id (limit div 2)")
  have n: "MIN_RATINGS_FOR_CF \<le> user_rating_count ratings user_id"
    using assms by (simp add: MIN_RATINGS_FOR_CF_def)
  have "fst (hybrid_recommendations tfidf ratings movies eng user_id limit) =
             (case r2 of
                Inl e \<Rightarrow> Inl e
              | Inr content_recs \<Rightarrow>
                  Inr (let blended = py_prefix limit (sort_by_score_desc
                                       (combined_dict cf_recs content_recs limit))
                       in if blended = [] then get_popular_movies_fallback ratings movies limit
                          else blended))"
    using n cf cb
    by (cases r2) (simp_all add: hybrid_recommendations_def hybrid_personalized_def Let_def)
  with cf cb show ?thesis by auto
qed

text \<open>
  Claim C5. The branch of the hybrid recommender is fixed by the number \<open>n\<close> of ratings of
  the target user. With \<open>n\<close> at least 5 the collaborative recommender returns (there are
  ratings, so the matrix exists) and the output is the blend of its result with the content
  result for \<open>limit div 2\<close>. With \<open>n\<close> between 1 and 4 the output is the content result for
  \<open>limit\<close>. With \<open>n = 0\<close> neither runs. In every branch an empty list is replaced by the
  result of the popularity fallback, and an exception of the content recommender is passed on.
\<close>

theorem hybrid_branch_selection:
  "(5 \<le> user_rating_count ratings user_id \<longrightarrow>
      (\<exists>cf_recs.
           collaborative_filtering_recommendations ratings eng user_id limit
             = (Inr cf_recs, ensure_user_item_matrix ratings eng)
         \<and> fst (hybrid_recommendations tfidf ratings movies eng user_id limit) =
             (case fst (content_based_recommendations tfidf ratings movies
                          (ensure_user_item_matrix ratings eng) user_id (limit div 2)) of
                Inl e \<Rightarrow> Inl e
              | Inr content_recs \<Rightarrow>
                  Inr (let blended = py_prefix limit (sort_by_score_desc
                                       (combined_dict cf_recs content_recs limit))
                       in if blended = [] then get_popular_movies_fallback ratings movies limit
                          else blended))))
   \<and> (0 < user_rating_count ratings user_id \<and> user_rating_count ratings user_id < 5 \<longrightarrow>
        fst (hybrid_recommendations tfidf ratings movies eng user_id limit) =
          (case fst (content_based_recommendations tfidf ratings movies eng user_id limit) of
             Inl e \<Rightarrow> Inl e
           | Inr content_recs \<Rightarrow>
               Inr (if content_recs = [] then get_popular_movies_fallback ratings movies limit
                    else content_recs)))
   \<and> (user_rating_count ratings user_id = 0 \<longrightarrow>
        fst (hybrid_recommendations tfidf ratings movies eng user_id limit) =
          Inr (get_popular_movies_fallback ratings movies limit))"
proof (intro conjI impI)
  assume "5 \<le> user_rating_count ratings user_id"
  then show "\<exists>cf_recs.
           collaborative_filtering_recommendations ratings eng user_id limit
             = (Inr cf_recs, ensure_user_item_matrix ratings eng)
         \<and> fst (hybrid_recommendations tfidf ratings movies eng user_id limit) =
             (case fst (content_based_recommendations tfidf ratings movies
                          (ensure_user_item_matrix ratings eng) user_id (limit div 2)) of
                Inl e \<Rightarrow> Inl e
              | Inr content_recs \<Rightarrow>
                  Inr (let blended = py_prefix limit (sort_by_score_desc
                                       (combined_dict cf_recs content_recs limit))
                       in if blended = [] then get_popular_movies_fallback ratings movies limit
                          else blended))"
    by (rule hybrid_blended_branch)
next
  assume n: "0 < user_rating_count ratings user_id \<and> user_rating_count ratings user_id < 5"
  obtain r eng' where cb:
    "content_based_recommendations tfidf ratings movies eng user_id limit = (r, eng')"
    by (cases "content_based_recommendations tfidf ratings movies eng user_id limit")
  with n show "fst (hybrid_recommendations tfidf ratings movies eng user_id limit) =
          (case fst (content_based_recommendations tfidf ratings movies eng user_id limit) of
             Inl e \<Rightarrow> Inl e
           | Inr content_recs \<Rightarrow>
               Inr (if content_recs = [] then get_popular_movies_fallback ratings movies limit
                    else content_recs))"
    by (cases r)
       (simp_all add: hybrid_recommendations_def hybrid_personalized_def MIN_RATINGS_FOR_CF_def)
next
  assume "user_rating_count ratings user_id = 0"
  then show "fst (hybrid_recommendations tfidf ratings movies eng user_id limit) =
          Inr (get_popular_movies_fallback ratings movies limit)"
    by (simp add: hybrid_recommendations_def hybrid_personalized_def MIN_RATINGS_FOR_CF_def)
qed

text \<open>The three branches on the sample snapshot: users \<open>u\<close>, \<open>v\<close> and the unknown \<open>w\<close>.\<close>

lemma count_sample_v: "user_rating_count sample_ratings ''v'' = 3"
  by (simp add: user_rating_count_def sample_ratings_def mk_rating_def)

lemma count_sample_w: "user_rating_count sample_ratings ''w'' = 0"
  by (simp add: user_rating_count_def sample_ratings_def mk_rating_def)

lemma content_ranking_sample_v:
  "content_ranking (Some sample_similarity) sample_ratings sample_movies ''v'' 2 = Inr []"
  by (simp add: content_ranking_def sample_ratings_def sample_movies_def mk_rating_def
      mk_movie_def sample_similarity_def movie_scores_def sort_by_score_desc_def
      py_prefix_def)

lemma content_sample_v:
  "fst (content_based_recommendations sample_tfidf sample_ratings sample_movies
     new_engine ''v'' 2) = Inr []"
  by (simp add: content_based_recommendations_def ensure_content_new content_ranking_sample_v)

lemma ensure_sample:
  "ensure_user_item_matrix sample_ratings new_engine
     = new_engine\<lparr>engine_user_item_matrix := Some sample_matrix\<rparr>"
  using collaborative_state [of sample_ratings new_engine "''u''" 2]
  by (simp add: collaborative_sample)

theorem hybrid_branch_selection_witness:
  "5 \<le> user_rating_count sample_ratings ''u''
   \<and> fst (hybrid_recommendations sample_tfidf sample_ratings sample_movies new_engine ''u'' 2)
       = Inr [(''f'', 1091/750)]
   \<and> 0 < user_rating_count sample_ratings ''v'' \<and> user_rating_count sample_ratings ''v'' < 5
   \<and> fst (content_based_recommendations sample_tfidf sample_ratings sample_movies
            new_engine ''v'' 2) = Inr []
   \<and> fst (hybrid_recommendations sample_tfidf sample_ratings sample_movies new_engine ''v'' 2)
       = Inr (get_popular_movies_fallback sample_ratings sample_movies 2)
   \<and> user_rating_count sample_ratings ''w'' = 0
   \<and> fst (hybrid_recommendations sample_tfidf sample_ratings sample_movies new_engine ''w'' 2)
       = Inr (get_popular_movies_fallback sample_ratings sample_movies 2)"
  using hybrid_branch_selection [of sample_ratings "''u''" new_engine 2 sample_tfidf sample_movies]
    hybrid_branch_selection [of sample_ratings "''v''" new_engine 2 sample_tfidf sample_movies]
    hybrid_branch_selection [of sample_ratings "''w''" new_engine 2 sample_tfidf sample_movies]
  by (simp add: count_sample count_sample_v count_sample_w content_sample_v hybrid_sample)

section \<open>The hybrid recommender with limit 1\<close>

text \<open>
  Claim C10. With limit 1 and a user of at least 5 ratings, \<open>limit div 2\<close> is 0: no
  collaborative entry enters the combined map and the content recommender is asked for 0
  entries, so the combined map is empty. The hybrid recommender then returns the result of
  the popularity fallback, unless the content recommender raises, in which case its exception
  is passed on. It does not raise when the engine holds a fitting similarity matrix or can
  build one.
\<close>

theorem hybrid_limit_one_is_fallback:
  assumes "5 \<le> user_rating_count ratings user_id"
  shows "fst (hybrid_recommendations tfidf ratings movies eng user_id 1) =
           (case fst (content_based_recommendations tfidf ratings movies
                        (ensure_user_item_matrix ratings eng) user_id 0) of
              Inl e \<Rightarrow> Inl e
            | Inr content_recs \<Rightarrow> Inr (get_popular_movies_fallback ratings movies 1))
       \<and> (content_available tfidf movies eng \<longrightarrow>
            fst (hybrid_recommendations tfidf ratings movies eng user_id 1) =
              Inr (get_popular_movies_fallback ratings movies 1))"
proof -
  from hybrid_blended_branch [OF assms, of eng 1 tfidf movies]
  obtain cf_recs where h: "fst (hybrid_recommendations tfidf ratings movies eng user_id 1) =
             (case fst (content_based_recommendations tfidf ratings movies
                          (ensure_user_item_matrix ratings eng) user_id (1 div 2)) of
                Inl e \<Rightarrow> Inl e
              | Inr content_recs \<Rightarrow>
                  Inr (let blended = py_prefix 1 (sort_by_score_desc
                                       (combined_dict cf_recs content_recs 1))
                       in if blended = [] then get_popular_movies_fallback ratings movies 1
                          else blended))"
    by blast
  obtain r2 eng2 where cb: "content_based_recommendations tfidf ratings movies
      (ensure_user_item_matrix ratings eng) user_id 0 = (r2, eng2)"
    by (cases "content_based_recommendations tfidf ratings movies
      (ensure_user_item_matrix ratings eng) user_id 0")
  have first: "fst (hybrid_recommendations tfidf ratings movies eng user_id 1) =
           (case r2 of Inl e \<Rightarrow> Inl e
            | Inr content_recs \<Rightarrow> Inr (get_popular_movies_fallback ratings movies 1))"
  proof (cases r2)
    case (Inl e)
    with h cb show ?thesis by simp
  next
    case (Inr content_recs)
    with cb have "content_recs = []" using content_based_limit_0 by blast
    with h cb Inr show ?thesis
      by (simp add: combined_dict_limit_1 sort_by_score_desc_def py_prefix_def)
  qed
  have second: "fst (hybrid_recommendations tfidf ratings movies eng user_id 1) =
              Inr (get_popular_movies_fallback ratings movies 1)"
    if "content_available tfidf movies eng"
  proof -
    from that have "content_available tfidf movies (ensure_user_item_matrix ratings eng)"
      by (simp add: content_available_ensure_user_item_matrix)
    from content_based_returns [OF this, of ratings user_id 0] cb
    obtain rs where "r2 = Inr rs" by auto
    with first show ?thesis by simp
  qed
  from first second cb show ?thesis by simp
qed

lemma content_available_sample: "content_available sample_tfidf sample_movies new_engine"
  by (simp add: content_available_def new_engine_def sample_tfidf_def sample_movies_def)

theorem hybrid_limit_one_is_fallback_witness:
  "5 \<le> user_rating_count sample_ratings ''u''
   \<and> content_available sample_tfidf sample_movies new_engine
   \<and> fst (collaborative_filtering_recommendations sample_ratings new_engine ''u'' 2)
       = Inr [(''f'', 5/3), (''g'', 5/6)]
   \<and> fst (hybrid_recommendations sample_tfidf sample_ratings sample_movies new_engine ''u'' 1)
       = Inr (get_popular_movies_fallback sample_ratings sample_movies 1)"
proof -
  have n: "5 \<le> user_rating_count sample_ratings ''u''" by (simp add: count_sample)
  from hybrid_limit_one_is_fallback [OF n, of sample_tfidf sample_movies new_engine]
    content_available_sample
  have "fst (hybrid_recommendations sample_tfidf sample_ratings sample_movies new_engine ''u'' 1)
       = Inr (get_popular_movies_fallback sample_ratings sample_movies 1)"
    by blast
  with n show ?thesis by (simp add: content_available_sample collaborative_sample)
qed

section \<open>Repeated invocations\<close>

lemma ensure_user_item_matrix_idem:
  "ensure_user_item_matrix ratings (ensure_user_item_matrix ratings eng)
     = ensure_user_item_matrix ratings eng"
  by (simp add: ensure_user_item_matrix_def build_user_item_matrix_def)

lemma collaborative_again:
  "collaborative_filtering_recommendations ratings
     (snd (collaborative_filtering_recommendations ratings eng user_id limit)) user_id limit
   = collaborative_filtering_recommendations ratings eng user_id limit"
  unfolding collaborative_state
  by (simp add: collaborative_filtering_recommendations_def ensure_user_item_matrix_idem)

lemma ensure_content_features_cases:
  assumes "ensure_content_features tfidf movies eng = Inr eng1"
  shows "eng1 = eng \<and> (engine_content_similarity_matrix eng \<noteq> None \<or> movies = [])
       \<or> (\<exists>S. eng1 = eng\<lparr>engine_content_similarity_matrix := Some S\<rparr>)"
  using assms
  by (auto simp: ensure_content_features_def build_content_features_def
      split: if_splits sum.splits)

lemma ensure_content_features_idem:
  assumes "ensure_content_features tfidf movies eng = Inr eng1"
  shows "ensure_content_features tfidf movies eng1 = Inr eng1"
  using ensure_content_features_cases [OF assms]
  by (auto simp: ensure_content_features_def build_content_features_def)

lemma ensure_content_features_matrix:
  assumes "ensure_content_features tfidf movies eng = Inr eng1"
  shows "engine_user_item_matrix eng1 = engine_user_item_matrix eng"
  using ensure_content_features_cases [OF assms] by auto

lemma content_state:
  "snd (content_based_recommendations tfidf ratings movies eng user_id limit) =
     (case ensure_content_features tfidf movies eng of Inl e \<Rightarrow> eng | Inr eng1 \<Rightarrow> eng1)"
  by (simp add: content_based_recommendations_def split: sum.splits)

lemma content_again:
  "content_based_recommendations tfidf ratings movies
     (snd (content_based_recommendations tfidf ratings movies eng user_id limit)) user_id limit
   = content_based_recommendations tfidf ratings movies eng user_id limit"
proof (cases "ensure_content_features tfidf movies eng")
  case (Inl e)
  then show ?thesis by (simp add: content_state)
next
  case (Inr eng1)
  then show ?thesis
    using ensure_content_features_idem [OF Inr]
    by (simp add: content_state) (simp add: content_based_recommendations_def)
qed

lemma content_keeps_matrix:
  "engine_user_item_matrix
     (snd (content_based_recommendations tfidf ratings movies eng user_id limit))
   = engine_user_item_matrix eng"
  by (simp add: content_state ensure_content_features_matrix split: sum.splits)

lemma collaborative_with_matrix:
  assumes "engine_user_item_matrix eng = Some M"
  shows "collaborative_filtering_recommendations ratings eng user_id limit
           = (Inr (collaborative_ranking M user_id limit), eng)"
  using assms
  by (simp add: collaborative_filtering_recommendations_def ensure_user_item_matrix_def)

lemma hybrid_again:
  "hybrid_recommendations tfidf ratings movies
     (snd (hybrid_recommendations tfidf ratings movies eng user_id limit)) user_id limit
   = hybrid_recommendations tfidf ratings movies eng user_id limit"
proof -
  define n where "n = user_rating_count ratings user_id"
  consider (blend) "MIN_RATINGS_FOR_CF \<le> n" | (content) "\<not> MIN_RATINGS_FOR_CF \<le> n" "0 < n"
    | (none) "\<not> MIN_RATINGS_FOR_CF \<le> n" "n = 0"
    by auto
  then show ?thesis
  proof cases
    case blend
    then have "ratings \<noteq> []"
      using rated_nonempty [of ratings user_id] by (simp add: n_def MIN_RATINGS_FOR_CF_def)
    then have "engine_user_item_matrix (ensure_user_item_matrix ratings eng) \<noteq> None"
      by (simp add: ensure_user_item_matrix_def build_user_item_matrix_def)
    then obtain M where M:
      "engine_user_item_matrix (ensure_user_item_matrix ratings eng) = Some M"
      by blast
    define ea where "ea = ensure_user_item_matrix ratings eng"
    define cf where "cf = collaborative_ranking M user_id limit"
    have cf1: "collaborative_filtering_recommendations ratings eng user_id limit = (Inr cf, ea)"
      using M by (simp add: collaborative_filtering_recommendations_def ea_def cf_def)
    obtain rb eb where cb:
      "content_based_recommendations tfidf ratings movies ea user_id (limit div 2) = (rb, eb)"
      by (cases "content_based_recommendations tfidf ratings movies ea user_id (limit div 2)")
    have eb: "engine_user_item_matrix eb = Some M"
      using content_keeps_matrix [of tfidf ratings movies ea user_id "limit div 2"] cb M
      by (simp add: ea_def)
    have cf2: "collaborative_filtering_recommendations ratings eb user_id limit = (Inr cf, eb)"
      using collaborative_with_matrix [OF eb] by (simp add: cf_def)
    have cb2:
      "content_based_recommendations tfidf ratings movies eb user_id (limit div 2) = (rb, eb)"
      using content_again [of tfidf ratings movies ea user_id "limit div 2"] cb by simp
    have p1: "hybrid_personalized tfidf ratings movies eng user_id limit =
        (case rb of Inl e \<Rightarrow> Inl e
         | Inr content_recs \<Rightarrow>
             Inr (py_prefix limit (sort_by_score_desc (combined_dict cf content_recs limit))),
         eb)"
      using blend cf1 cb by (cases rb) (simp_all add: hybrid_personalized_def n_def)
    have p2: "hybrid_personalized tfidf ratings movies eb user_id limit =
        (case rb of Inl e \<Rightarrow> Inl e
         | Inr content_recs \<Rightarrow>
             Inr (py_prefix limit (sort_by_score_desc (combined_dict cf content_recs limit))),
         eb)"
      using blend cf2 cb2 by (cases rb) (simp_all add: hybrid_personalized_def n_def)
    have "snd (hybrid_recommendations tfidf ratings movies eng user_id limit) = eb"
      by (cases rb) (simp_all add: hybrid_recommendations_def p1)
    then show ?thesis by (simp add: hybrid_recommendations_def p1 p2)
  next
    case content
    define out where "out = content_based_recommendations tfidf ratings movies eng user_id limit"
    have p1: "hybrid_personalized tfidf ratings movies eng user_id limit = out"
      using content by (simp add: hybrid_personalized_def n_def out_def)
    have s: "snd (hybrid_recommendations tfidf ratings movies eng user_id limit) = snd out"
      by (cases out; cases "fst out") (simp_all add: hybrid_recommendations_def p1)
    have p2: "hybrid_personalized tfidf ratings movies (snd out) user_id limit = out"
      using content content_again [of tfidf ratings movies eng user_id limit]
      by (simp add: hybrid_personalized_def n_def out_def)
    show ?thesis unfolding s by (simp add: hybrid_recommendations_def p1 p2)
  next
    case none
    then show ?thesis
      by (simp add: hybrid_recommendations_def hybrid_personalized_def n_def)
  qed
qed

text \<open>
  Claim C8. On a fixed snapshot and with fixed parameters, a second invocation returns what
  the first returned, in each of the three modes and from every state of the engine: the
  result or the exception of the second call, which runs on the engine the first call left
  behind, is that of the first call. Nothing on the path is random; the only state is the two
  cached matrices, and a call that finds them built reads what the first call built.
\<close>

theorem repeated_invocation_same_result:
  "fst (collaborative_filtering_recommendations ratings
          (snd (collaborative_filtering_recommendations ratings eng user_id limit))
          user_id limit)
     = fst (collaborative_filtering_recommendations ratings eng user_id limit)
   \<and> fst (content_based_recommendations tfidf ratings movies
            (snd (content_based_recommendations tfidf ratings movies eng user_id limit))
            user_id limit)
     = fst (content_based_recommendations tfidf ratings movies eng user_id limit)
   \<and> fst (hybrid_recommendations tfidf ratings movies
            (snd (hybrid_recommendations tfidf ratings movies eng user_id limit))
            user_id limit)
     = fst (hybrid_recommendations tfidf ratings movies eng user_id limit)"
  by (simp add: collaborative_again content_again hybrid_again)

section \<open>Ties between users, and a snapshot without ratings\<close>

lemma pivot_twin:
  "pivot_table twin_ratings =
     \<lparr>mat_index = [''a'', ''b''], mat_columns = [''m''], mat_values = [[5], [5]]\<rparr>"
  by (simp add: pivot_table_def twin_ratings_def mk_rating_def np_mean_def)

lemma sims_twin: "user_similarity (pivot_table twin_ratings) ''a'' = [1, 1]"
  by (simp add: pivot_twin user_similarity_def loc_def cosine_similarity_def normalize_row_def
      norm_divisor_def row_norm_def dot_def)

lemma sims_twin_b: "user_similarity (pivot_table twin_ratings) ''b'' = [1, 1]"
  by (simp add: pivot_twin user_similarity_def loc_def cosine_similarity_def normalize_row_def
      norm_divisor_def row_norm_def dot_def)

text \<open>
  Claim C3 states that the neighbours are the ten most similar other users and never the
  target. The code drops the first position of the reversed \<open>argsort\<close>, whoever is there.
  For the twins the similarities are \<open>[1, 1]\<close> for either target, so both targets get the
  same neighbour list, which holds one of them. The reversed order puts \<open>b\<close> first, so \<open>b\<close>
  is dropped and the only neighbour of \<open>a\<close> is \<open>a\<close> itself.
\<close>

theorem neighbours_contain_target_on_tie:
  "''a'' \<in> set (mat_index (pivot_table twin_ratings))
   \<and> user_similarity (pivot_table twin_ratings) ''a'' = [1, 1]
   \<and> user_similarity (pivot_table twin_ratings) ''b'' = [1, 1]
   \<and> similar_users_idx (pivot_table twin_ratings) ''a''
       = similar_users_idx (pivot_table twin_ratings) ''b''
   \<and> map (\<lambda>idx. mat_index (pivot_table twin_ratings) ! idx)
         (similar_users_idx (pivot_table twin_ratings) ''a'') = [''a'']"
  by (simp add: similar_users_idx_def sims_twin sims_twin_b argsort_def) (simp add: pivot_twin)

text \<open>
  Claim C7 states that no recommender raises on a sparse snapshot. With no rating at all and
  a fresh engine, \<open>build_user_item_matrix\<close> leaves the matrix \<open>None\<close> and the collaborative
  recommender raises \<open>AttributeError\<close> on \<open>self.user_item_matrix.index\<close>.
\<close>

theorem collaborative_raises_without_ratings:
  "collaborative_filtering_recommendations [] new_engine ''u1'' 10
     = (Inl AttributeError, new_engine)"
  by (simp add: collaborative_filtering_recommendations_def ensure_user_item_matrix_def
      build_user_item_matrix_def new_engine_def)

section \<open>Degenerate vectors\<close>

lemma norm_divisor_nonzero: "norm_divisor v \<noteq> 0"
  by (simp add: norm_divisor_def)

lemma row_norm_zero:
  assumes "row_norm v = 0"
  shows "\<forall>x \<in> set v. x = 0"
proof -
  have "sum_list (map (\<lambda>x. x * x) v) = 0"
    using assms by (simp add: row_norm_def)
  moreover have "\<forall>y \<in> set (map (\<lambda>x. x * x) v). 0 \<le> y" by auto
  ultimately have "\<forall>y \<in> set (map (\<lambda>x. x * x) v). y = 0"
    using sum_list_nonneg_eq_0_iff [of "map (\<lambda>x. x * x) v"] by blast
  then show ?thesis by auto
qed

lemma normalize_row_zero:
  assumes "row_norm v = 0"
  shows "\<forall>x \<in> set (normalize_row v). x = 0"
  using row_norm_zero [OF assms] by (auto simp: normalize_row_def)

lemma dot_zero_left: "\<forall>x \<in> set u. x = 0 \<Longrightarrow> dot u w = 0"
  unfolding dot_def
proof (induction u arbitrary: w)
  case Nil
  then show ?case by simp
next
  case (Cons x u)
  then show ?case by (cases w) simp_all
qed

lemma dot_zero_right: "\<forall>x \<in> set w. x = 0 \<Longrightarrow> dot u w = 0"
  unfolding dot_def
proof (induction u arbitrary: w)
  case Nil
  then show ?case by simp
next
  case (Cons x u)
  then show ?case by (cases w) simp_all
qed

lemma cosine_zero_norm:
  assumes "row_norm x = 0 \<or> row_norm y = 0"
  shows "dot (normalize_row x) (normalize_row y) = 0"
  using assms normalize_row_zero dot_zero_left dot_zero_right by blast

lemma cosine_similarity_nth:
  "i < length X \<Longrightarrow> j < length Y \<Longrightarrow>
   cosine_similarity X Y ! i ! j = dot (normalize_row (X ! i)) (normalize_row (Y ! j))"
  by (simp add: cosine_similarity_def)

text \<open>
  Claim C9. The cosine similarity never divides by zero: the divisor of a row is its norm, or
  1 when the norm is zero. An entry of the similarity matrix whose row or column vector has
  norm zero is 0. Every mean that becomes a ranked score is taken over a list that is not
  empty: the contributions of the collaborative and of the content recommender and the
  scores grouped by the popularity fallback. (Scores are real numbers here, so a NaN can
  only stand for a division of zero by zero.)
\<close>

theorem cosine_similarity_degenerate:
  "norm_divisor v \<noteq> 0
   \<and> (i < length X \<and> j < length Y \<and> (row_norm (X ! i) = 0 \<or> row_norm (Y ! j) = 0)
        \<longrightarrow> cosine_similarity X Y ! i ! j = 0)
   \<and> (\<forall>(m, scores) \<in> set (cf_contributions M user_id). scores \<noteq> [])
   \<and> (content_contributions S movie_ids rated liked [] = Inr d
        \<longrightarrow> (\<forall>(m, scores) \<in> set d. scores \<noteq> []))
   \<and> (\<forall>(m, scores) \<in> set (movie_popularity ratings). scores \<noteq> [])"
proof (intro conjI impI)
  show "norm_divisor v \<noteq> 0" by (rule norm_divisor_nonzero)
next
  assume "i < length X \<and> j < length Y \<and> (row_norm (X ! i) = 0 \<or> row_norm (Y ! j) = 0)"
  then show "cosine_similarity X Y ! i ! j = 0"
    by (simp add: cosine_similarity_nth cosine_zero_norm)
next
  show "\<forall>(m, scores) \<in> set (cf_contributions M user_id). scores \<noteq> []"
    by (rule cf_contributions_invariant [OF dict_invariant_nonempty]) simp
next
  assume "content_contributions S movie_ids rated liked [] = Inr d"
  then show "\<forall>(m, scores) \<in> set d. scores \<noteq> []"
    using content_contributions_invariant [OF dict_invariant_nonempty, of "[]"] by simp
next
  show "\<forall>(m, scores) \<in> set (movie_popularity ratings). scores \<noteq> []"
    by (rule movie_popularity_invariant [OF dict_invariant_nonempty]) simp
qed

lemma content_contributions_sample:
  "content_contributions (Some sample_similarity) [''a'', ''f'', ''g'']
     [''a'', ''b'', ''c'', ''d'', ''e''] [''a'', ''b''] []
   = Inr [(''f'', [24/25]), (''g'', [3/5])]"
  by (simp add: sample_similarity_def)

lemma movie_popularity_sample:
  "movie_popularity [mk_rating ''a'' ''m'' 5, mk_rating ''b'' ''m'' 4] = [(''m'', [5, 4])]"
  by (simp add: movie_popularity_def mk_rating_def)

lemma zero_row_norm: "row_norm [0, 0] = 0"
  by (simp add: row_norm_def)

theorem cosine_similarity_degenerate_witness:
  "norm_divisor [0, 0] = 1
   \<and> (0::nat) < length [[0, 0 :: real]] \<and> (0::nat) < length [[3, 4 :: real]]
   \<and> row_norm ([[0, 0]] ! 0) = 0
   \<and> cosine_similarity [[0, 0]] [[3, 4]] ! 0 ! 0 = 0
   \<and> cf_contributions sample_matrix ''u'' = [(''f'', [5/3]), (''g'', [5/6])]
   \<and> content_contributions (Some sample_similarity) [''a'', ''f'', ''g'']
        [''a'', ''b'', ''c'', ''d'', ''e''] [''a'', ''b''] []
      = Inr [(''f'', [24/25]), (''g'', [3/5])]
   \<and> movie_popularity [mk_rating ''a'' ''m'' 5, mk_rating ''b'' ''m'' 4] = [(''m'', [5, 4])]
   \<and> [5/3 :: real] \<noteq> [] \<and> [5/6 :: real] \<noteq> []"
  using cosine_similarity_degenerate [of "[0, 0]" 0 "[[0, 0]]" 0 "[[3, 4]]" sample_matrix "''u''"
      "Some sample_similarity" "[''a'', ''f'', ''g'']" "[''a'', ''b'', ''c'', ''d'', ''e'']"
      "[''a'', ''b'']" "[(''f'', [24/25]), (''g'', [3/5])]"
      "[mk_rating ''a'' ''m'' 5, mk_rating ''b'' ''m'' 4]"]
  by (simp add: contrib_sample content_contributions_sample movie_popularity_sample
      zero_row_norm norm_divisor_def del: content_contributions.simps content_row.simps)

end
